theory Spec2Isabelle
  imports Complex_Main
begin

chapter \<open>A shallow embedding of the question-to-insight pipeline\<close>

text \<open>
  The development follows the Python sources module by module:
  \<^item> \<^verbatim>\<open>app/db/security.py\<close>: \<open>SQLSecurityValidator\<close> (\<open>validate\<close>, \<open>sanitize\<close>);
  \<^item> \<^verbatim>\<open>app/db/executor.py\<close>: \<open>SQLExecutor.execute\<close>;
  \<^item> \<^verbatim>\<open>app/llm/query_intent.py\<close>: \<open>QueryIntentDetector\<close>;
  \<^item> \<^verbatim>\<open>app/llm/chains.py\<close>: \<open>SQLGenerationChain\<close>;
  \<^item> \<^verbatim>\<open>app/services/chat_service.py\<close>: the SQL steps of \<open>ChatService.handle_question\<close>;
  \<^item> \<^verbatim>\<open>app/services/statistical_analysis.py\<close>: \<open>StatisticalAnalysisService\<close>.

  Python strings are modelled as Isabelle strings holding the UTF-8 encoding of the text.
  Substring search, concatenation and the regular expressions of the sources act on the
  encoding exactly as they act on the code points. Character classification
  (\<open>str.isspace\<close>, \<open>\s\<close>, \<open>\d\<close>, \<open>\b\<close>) and case mapping
  (\<open>str.upper\<close>, \<open>str.lower\<close>, \<open>re.IGNORECASE\<close>) are modelled for ASCII; every
  byte of a non-ASCII character is left unchanged by case mapping and is neither whitespace
  nor a digit. Exceptions are values: a raised exception is the \<open>Inl\<close> of a sum, carrying
  its message. Calls of the logger are kept where a property speaks about them.
\<close>

section \<open>Python strings\<close>

text \<open>The characters \<open>str.isspace\<close> accepts below code point 128.\<close>

definition whitespace :: "char list" where
  "whitespace = [CHR 0x09, CHR 0x0A, CHR 0x0B, CHR 0x0C, CHR 0x0D,
                 CHR 0x1C, CHR 0x1D, CHR 0x1E, CHR 0x1F, CHR 0x20]"

definition isspace :: "char \<Rightarrow> bool" where
  "isspace c = (c \<in> set whitespace)"

definition isdigit :: "char \<Rightarrow> bool" where
  "isdigit c = (c \<in> set ''0123456789'')"

definition ascii_lowercase :: string where
  "ascii_lowercase = ''abcdefghijklmnopqrstuvwxyz''"

definition ascii_uppercase :: string where
  "ascii_uppercase = ''ABCDEFGHIJKLMNOPQRSTUVWXYZ''"

text \<open>
  Case mapping of the ASCII letters. \<open>str.upper\<close> also maps a few non-ASCII letters to
  ASCII ones (the dotless i U+0131 to \<open>I\<close>); the model leaves them unchanged. An
  occurrence of an ASCII word in the upper-cased model string is therefore one in
  Python's as well; the converse does not hold.
\<close>

definition upper_char :: "char \<Rightarrow> char" where
  "upper_char c =
     (case map_of (zip ascii_lowercase ascii_uppercase) c of Some u \<Rightarrow> u | None \<Rightarrow> c)"

definition lower_char :: "char \<Rightarrow> char" where
  "lower_char c =
     (case map_of (zip ascii_uppercase ascii_lowercase) c of Some l \<Rightarrow> l | None \<Rightarrow> c)"

definition upper :: "string \<Rightarrow> string" where
  "upper s = map upper_char s"

definition lower :: "string \<Rightarrow> string" where
  "lower s = map lower_char s"

definition lstrip :: "string \<Rightarrow> string" where
  "lstrip s = dropWhile isspace s"

definition rstrip :: "string \<Rightarrow> string" where
  "rstrip s = rev (dropWhile isspace (rev s))"

definition strip :: "string \<Rightarrow> string" where
  "strip s = rstrip (lstrip s)"

text \<open>\<open>s.rstrip(chars)\<close> removes every trailing character that is in \<open>chars\<close>.\<close>

definition rstrip_chars :: "string \<Rightarrow> string \<Rightarrow> string" where
  "rstrip_chars s chars = rev (dropWhile (\<lambda>c. c \<in> set chars) (rev s))"

definition startswith :: "string \<Rightarrow> string \<Rightarrow> bool" where
  "startswith s p = (take (length p) s = p)"

definition endswith :: "string \<Rightarrow> string \<Rightarrow> bool" where
  "endswith s p = (drop (length s - length p) s = p)"

text \<open>
  \<open>s.find(sub)\<close>: the index of the first occurrence; Python's \<open>-1\<close> is \<open>None\<close>.
  \<open>sub in s\<close> is \<open>str_in sub s\<close>.
\<close>

primrec str_find :: "string \<Rightarrow> string \<Rightarrow> nat option" where
  "str_find [] sub = (if sub = [] then Some 0 else None)"
| "str_find (c # cs) sub =
     (if startswith (c # cs) sub then Some 0 else map_option Suc (str_find cs sub))"

definition str_in :: "string \<Rightarrow> string \<Rightarrow> bool" where
  "str_in sub s = (str_find s sub \<noteq> None)"

text \<open>\<open>str(n)\<close> for an integer, as an f-string prints it.\<close>

definition digit_char :: "nat \<Rightarrow> char" where
  "digit_char d = ''0123456789'' ! d"

fun str_of_nat :: "nat \<Rightarrow> string" where
  "str_of_nat n =
     (if n < 10 then [digit_char n] else str_of_nat (n div 10) @ [digit_char (n mod 10)])"

definition str_of_int :: "int \<Rightarrow> string" where
  "str_of_int i = (if i < 0 then CHR ''-'' # str_of_nat (nat (- i)) else str_of_nat (nat i))"

section \<open>The regular expressions of the sources\<close>

text \<open>
  The patterns the sources hand to \<open>re\<close> are alternatives of sequences of single
  characters, character classes and repetitions of one character or class. \<open>match_here\<close>
  is the backtracking matcher of \<open>re\<close> on that fragment: it tries a greedy repetition
  longest first and a lazy one shortest first, and returns the length of the first match it
  finds at the given position. \<open>prev\<close> is the character before the position, which
  \<open>\b\<close> looks at. \<open>re_search\<close> returns the start and the length of the leftmost match.
\<close>

datatype atom = Lit char | AnyChar | Space | Digit

datatype item =
    Once atom
  | ZeroOrMore atom
  | OneOrMore atom
  | LazyZeroOrMore atom
  | LazyOneOrMore atom
  | WordBoundary

record flags =
  IGNORECASE :: bool
  DOTALL :: bool

text \<open>
  A word character for \<open>\b\<close>: an ASCII letter, digit or underscore, or a byte of a
  non-ASCII character (\<open>digit7\<close> is the top bit), as the letters of other scripts
  are word characters.
\<close>

definition isword :: "char \<Rightarrow> bool" where
  "isword c =
     (c \<in> set ascii_lowercase \<or> c \<in> set ascii_uppercase \<or> isdigit c \<or> c = CHR ''_''
      \<or> digit7 c)"

fun atom_match :: "flags \<Rightarrow> atom \<Rightarrow> char \<Rightarrow> bool" where
  "atom_match f (Lit a) c = (if IGNORECASE f then lower_char a = lower_char c else a = c)"
| "atom_match f AnyChar c = (DOTALL f \<or> c \<noteq> CHR 0x0A)"
| "atom_match f Space c = isspace c"
| "atom_match f Digit c = isdigit c"

definition at_boundary :: "char option \<Rightarrow> string \<Rightarrow> bool" where
  "at_boundary prev s =
     ((case prev of None \<Rightarrow> False | Some p \<Rightarrow> isword p)
        \<noteq> (case s of [] \<Rightarrow> False | c # _ \<Rightarrow> isword c))"

fun match_here :: "flags \<Rightarrow> item list \<Rightarrow> char option \<Rightarrow> string \<Rightarrow> nat option" where
  "match_here f [] prev s = Some 0"
| "match_here f (Once a # r) prev [] = None"
| "match_here f (Once a # r) prev (c # cs) =
     (if atom_match f a c then map_option Suc (match_here f r (Some c) cs) else None)"
| "match_here f (OneOrMore a # r) prev [] = None"
| "match_here f (OneOrMore a # r) prev (c # cs) =
     (if atom_match f a c
      then map_option Suc (match_here f (ZeroOrMore a # r) (Some c) cs)
      else None)"
| "match_here f (LazyOneOrMore a # r) prev [] = None"
| "match_here f (LazyOneOrMore a # r) prev (c # cs) =
     (if atom_match f a c
      then map_option Suc (match_here f (LazyZeroOrMore a # r) (Some c) cs)
      else None)"
| "match_here f (ZeroOrMore a # r) prev [] = match_here f r prev []"
| "match_here f (ZeroOrMore a # r) prev (c # cs) =
     (if atom_match f a c
      then (case match_here f (ZeroOrMore a # r) (Some c) cs of
              Some n \<Rightarrow> Some (Suc n)
            | None \<Rightarrow> match_here f r prev (c # cs))
      else match_here f r prev (c # cs))"
| "match_here f (LazyZeroOrMore a # r) prev [] = match_here f r prev []"
| "match_here f (LazyZeroOrMore a # r) prev (c # cs) =
     (case match_here f r prev (c # cs) of
        Some n \<Rightarrow> Some n
      | None \<Rightarrow>
          if atom_match f a c
          then map_option Suc (match_here f (LazyZeroOrMore a # r) (Some c) cs)
          else None)"
| "match_here f (WordBoundary # r) prev s =
     (if at_boundary prev s then match_here f r prev s else None)"

type_synonym pattern = "item list list"

fun match_alts :: "flags \<Rightarrow> pattern \<Rightarrow> char option \<Rightarrow> string \<Rightarrow> nat option" where
  "match_alts f [] prev s = None"
| "match_alts f (alt # alts) prev s =
     (case match_here f alt prev s of
        Some n \<Rightarrow> Some n
      | None \<Rightarrow> match_alts f alts prev s)"

fun search_from ::
  "flags \<Rightarrow> pattern \<Rightarrow> char option \<Rightarrow> string \<Rightarrow> nat \<Rightarrow> (nat \<times> nat) option" where
  "search_from f p prev [] i = map_option (\<lambda>n. (i, n)) (match_alts f p prev [])"
| "search_from f p prev (c # cs) i =
     (case match_alts f p prev (c # cs) of
        Some n \<Rightarrow> Some (i, n)
      | None \<Rightarrow> search_from f p (Some c) cs (Suc i))"

definition re_search :: "pattern \<Rightarrow> string \<Rightarrow> flags \<Rightarrow> (nat \<times> nat) option" where
  "re_search p s f = search_from f p None s 0"

text \<open>A run of literal characters of a pattern.\<close>

definition lit :: "string \<Rightarrow> item list" where
  "lit w = map (\<lambda>c. Once (Lit c)) w"

section \<open>\<open>app/config.py\<close>: the settings the model reads\<close>

record settings =
  SQL_MAX_ROWS :: int
  SQL_ALLOWED_OPERATIONS :: "string list"

definition default_settings :: settings where
  "default_settings = \<lparr>SQL_MAX_ROWS = 1000, SQL_ALLOWED_OPERATIONS = [''SELECT'']\<rparr>"

section \<open>\<open>app/db/security.py\<close>: the SQL security validator\<close>

text \<open>
  \<open>validate\<close> works on the token tree that \<open>sqlparse.parse\<close> returns. The library is
  not part of the repository, so its result is an argument of the model: \<open>Inl\<close> an
  exception, \<open>Inr\<close> the parsed statements, each the list \<open>statement.tokens\<close> of its
  top-level tokens. A token type of \<open>sqlparse.tokens\<close> is the path of its names
  (\<open>Token.Keyword.DML\<close> is \<open>[Keyword, DML]\<close>), so that the identity test
  \<open>token.ttype is Keyword\<close> is equality of paths. A leaf token carries its type and its
  text; a grouped token (\<open>Identifier\<close>, \<open>Parenthesis\<close>, \<open>Where\<close>, ...) has
  \<open>ttype\<close> \<open>None\<close>, the name of its class and its sub-tokens, and its \<open>value\<close> is
  their text.
\<close>

type_synonym tokentype = "string list"

definition Keyword :: tokentype where "Keyword = [''Keyword'']"
definition DML :: tokentype where "DML = [''Keyword'', ''DML'']"
definition DDL :: tokentype where "DDL = [''Keyword'', ''DDL'']"
definition CTE :: tokentype where "CTE = [''Keyword'', ''CTE'']"
definition Name :: tokentype where "Name = [''Name'']"
definition Wildcard :: tokentype where "Wildcard = [''Wildcard'']"
definition Punctuation :: tokentype where "Punctuation = [''Punctuation'']"
definition Whitespace :: tokentype where "Whitespace = [''Text'', ''Whitespace'']"

datatype token = Leaf tokentype string | Group string "token list"

primrec ttype :: "token \<Rightarrow> tokentype option" where
  "ttype (Leaf t v) = Some t"
| "ttype (Group cls ts) = None"

primrec tvalue :: "token \<Rightarrow> string" where
  "tvalue (Leaf t v) = v"
| "tvalue (Group cls ts) = concat (map tvalue ts)"

text \<open>\<open>flatten\<close> lists the leaves of a token, as \<open>Token.flatten()\<close> does.\<close>

primrec flatten :: "token \<Rightarrow> token list" where
  "flatten (Leaf t v) = [Leaf t v]"
| "flatten (Group cls ts) = concat (map flatten ts)"

datatype log_record = Warning string | Error string

definition warnings :: "log_record list \<Rightarrow> string list" where
  "warnings records =
     concat (map (\<lambda>r. case r of Warning m \<Rightarrow> [m] | Error m \<Rightarrow> []) records)"

definition blocked_keywords :: "string list" where
  "blocked_keywords =
     [''DELETE'', ''DROP'', ''TRUNCATE'', ''ALTER'', ''CREATE'',
      ''INSERT'', ''UPDATE'', ''GRANT'', ''REVOKE'', ''EXEC'',
      ''EXECUTE'', ''CALL'', ''MERGE'', ''COPY'']"

text \<open>
  The loop of \<open>validate\<close> over \<open>statement.tokens\<close>: the message of the first token that
  is refused, \<open>None\<close> when the loop runs to its end.
\<close>

fun blocked_operation :: "settings \<Rightarrow> token list \<Rightarrow> string option" where
  "blocked_operation cfg [] = None"
| "blocked_operation cfg (t # ts) =
     (if ttype t = Some DML \<and> strip (upper (tvalue t)) \<notin> set (SQL_ALLOWED_OPERATIONS cfg)
      then Some (''Operation '' @ [CHR 0x27] @ strip (upper (tvalue t)) @ [CHR 0x27] @
                 '' is not allowed. Only SELECT queries are permitted.'')
      else if ttype t = Some Keyword \<and> strip (upper (tvalue t)) \<in> set blocked_keywords
      then Some (''Keyword '' @ [CHR 0x27] @ strip (upper (tvalue t)) @ [CHR 0x27] @
                 '' is not allowed for security reasons.'')
      else blocked_operation cfg ts)"

fun is_select_only :: "token list \<Rightarrow> bool" where
  "is_select_only [] = False"
| "is_select_only (t # ts) =
     (if ttype t = Some DML then strip (upper (tvalue t)) = ''SELECT'' else is_select_only ts)"

definition has_limit :: "string \<Rightarrow> bool" where
  "has_limit sql = str_in ''LIMIT'' (upper sql)"

text \<open>
  \<open>validate cfg parsed sql\<close>, where \<open>parsed\<close> is what \<open>sqlparse.parse(sql.strip())\<close>
  gives. The result is the pair \<open>(is_valid, error_message)\<close> together with the records
  the call writes to the log.
\<close>

definition validate ::
  "settings \<Rightarrow> (string + token list list) \<Rightarrow> string
     \<Rightarrow> (bool \<times> string option) \<times> log_record list" where
  "validate cfg parsed sql =
     (if sql = [] \<or> strip sql = [] then ((False, Some ''Empty SQL query''), [])
      else case parsed of
        Inl e \<Rightarrow>
          ((False, Some (''SQL validation failed: '' @ e)),
           [Error (''SQL validation error: '' @ e)])
      | Inr [] \<Rightarrow> ((False, Some ''Invalid SQL syntax''), [])
      | Inr (statement # _) \<Rightarrow>
          (case blocked_operation cfg statement of
             Some err \<Rightarrow> ((False, Some err), [])
           | None \<Rightarrow>
               if \<not> is_select_only statement
               then ((False, Some ''Only SELECT statements are allowed''), [])
               else ((True, None),
                     if \<not> has_limit sql
                     then [Warning (''Query missing LIMIT clause: '' @ take 100 sql)]
                     else [])))"

definition sanitize :: "settings \<Rightarrow> string \<Rightarrow> string" where
  "sanitize cfg sql =
     (let sql1 = rstrip_chars (strip sql) '';''
      in if \<not> has_limit sql1
         then sql1 @ '' LIMIT '' @ str_of_int (SQL_MAX_ROWS cfg)
         else sql1)"

section \<open>\<open>app/llm/query_intent.py\<close>: the intent detector\<close>

text \<open>
  The pattern tables of \<open>QueryIntentDetector\<close>, one pattern per line of the source, each
  an alternation of literal words. The Arabic words are written as the bytes of their
  UTF-8 encoding. The only pattern that is not a plain alternation of words is
  \<open>does.*affect\<close>.
\<close>

definition LIST_PATTERNS :: "pattern list" where
  "LIST_PATTERNS =
     [[lit [CHR 0xD8, CHR 0xB9, CHR 0xD8, CHR 0xB1, CHR 0xD8, CHR 0xB6],
       lit [CHR 0xD8, CHR 0xA3, CHR 0xD8, CHR 0xB9, CHR 0xD8, CHR 0xB1, CHR 0xD8, CHR 0xB6],
       lit [CHR 0xD8, CHR 0xA7, CHR 0xD8, CHR 0xB9, CHR 0xD8, CHR 0xB1, CHR 0xD8, CHR 0xB6],
       lit [CHR 0xD8, CHR 0xB9, CHR 0xD8, CHR 0xB1, CHR 0xD8, CHR 0xB6, CHR 0x20, CHR 0xD8, CHR 0xAC, CHR 0xD9, CHR 0x85, CHR 0xD9, CHR 0x8A, CHR 0xD8, CHR 0xB9],
       lit [CHR 0xD8, CHR 0xA3, CHR 0xD8, CHR 0xB8, CHR 0xD9, CHR 0x87, CHR 0xD8, CHR 0xB1],
       lit [CHR 0xD8, CHR 0xA3, CHR 0xD8, CHR 0xB8, CHR 0xD9, CHR 0x87, CHR 0xD8, CHR 0xB1, CHR 0x20, CHR 0xD8, CHR 0xAC, CHR 0xD9, CHR 0x85, CHR 0xD9, CHR 0x8A, CHR 0xD8, CHR 0xB9],
       lit ''show'', lit ''list'', lit ''display'', lit ''get all''],
      [lit [CHR 0xD8, CHR 0xAC, CHR 0xD9, CHR 0x85, CHR 0xD9, CHR 0x8A, CHR 0xD8, CHR 0xB9],
       lit [CHR 0xD9, CHR 0x83, CHR 0xD9, CHR 0x84], lit ''all'', lit ''every''],
      [lit [CHR 0xD9, CHR 0x85, CHR 0xD8, CHR 0xA7, CHR 0x20, CHR 0xD9, CHR 0x87, CHR 0xD9, CHR 0x8A],
       lit [CHR 0xD9, CHR 0x85, CHR 0xD8, CHR 0xA7, CHR 0x20, CHR 0xD9, CHR 0x87, CHR 0xD9, CHR 0x85],
       lit ''what are'', lit ''what is'']]"

definition AGGREGATE_PATTERNS :: "pattern list" where
  "AGGREGATE_PATTERNS =
     [[lit [CHR 0xD9, CHR 0x83, CHR 0xD9, CHR 0x85],
       lit [CHR 0xD8, CHR 0xB9, CHR 0xD8, CHR 0xAF, CHR 0xD8, CHR 0xAF], lit ''count'',
       lit ''how many'', lit ''total'', lit ''sum'', lit ''average'', lit ''avg'',
       lit [CHR 0xD9, CHR 0x85, CHR 0xD8, CHR 0xAA, CHR 0xD9, CHR 0x88, CHR 0xD8, CHR 0xB3, CHR 0xD8, CHR 0xB7],
       lit [CHR 0xD8, CHR 0xA5, CHR 0xD8, CHR 0xAC, CHR 0xD9, CHR 0x85, CHR 0xD8, CHR 0xA7, CHR 0xD9, CHR 0x84, CHR 0xD9, CHR 0x8A]],
      [lit [CHR 0xD8, CHR 0xA3, CHR 0xD9, CHR 0x83, CHR 0xD8, CHR 0xAB, CHR 0xD8, CHR 0xB1],
       lit [CHR 0xD8, CHR 0xA3, CHR 0xD9, CHR 0x82, CHR 0xD9, CHR 0x84], lit ''most'',
       lit ''least'', lit ''highest'', lit ''lowest'',
       lit [CHR 0xD8, CHR 0xA7, CHR 0xD9, CHR 0x84, CHR 0xD8, CHR 0xA3, CHR 0xD9, CHR 0x83, CHR 0xD8, CHR 0xAB, CHR 0xD8, CHR 0xB1],
       lit [CHR 0xD8, CHR 0xA7, CHR 0xD9, CHR 0x84, CHR 0xD8, CHR 0xA3, CHR 0xD9, CHR 0x82, CHR 0xD9, CHR 0x84]],
      [lit [CHR 0xD8, CHR 0xA3, CHR 0xD8, CHR 0xB9, CHR 0xD9, CHR 0x84, CHR 0xD9, CHR 0x89],
       lit [CHR 0xD8, CHR 0xA3, CHR 0xD9, CHR 0x82, CHR 0xD9, CHR 0x84], lit ''top'',
       lit ''bottom'', lit ''maximum'', lit ''minimum'']]"

definition COMPARISON_PATTERNS :: "pattern list" where
  "COMPARISON_PATTERNS =
     [[lit [CHR 0xD9, CHR 0x82, CHR 0xD8, CHR 0xA7, CHR 0xD8, CHR 0xB1, CHR 0xD9, CHR 0x86],
       lit [CHR 0xD9, CHR 0x85, CHR 0xD9, CHR 0x82, CHR 0xD8, CHR 0xA7, CHR 0xD8, CHR 0xB1, CHR 0xD9, CHR 0x86, CHR 0xD8, CHR 0xA9],
       lit ''compare'', lit ''comparison'', lit ''versus'', lit ''vs'',
       lit [CHR 0xD9, CHR 0x85, CHR 0xD9, CHR 0x82, CHR 0xD8, CHR 0xA7, CHR 0xD8, CHR 0xB1, CHR 0xD9, CHR 0x86, CHR 0xD8, CHR 0xA9, CHR 0x20, CHR 0xD8, CHR 0xA8, CHR 0xD9, CHR 0x8A, CHR 0xD9, CHR 0x86]],
      [lit [CHR 0xD8, CHR 0xA3, CHR 0xD9, CHR 0x81, CHR 0xD8, CHR 0xB6, CHR 0xD9, CHR 0x84],
       lit [CHR 0xD8, CHR 0xA3, CHR 0xD8, CHR 0xB3, CHR 0xD9, CHR 0x88, CHR 0xD8, CHR 0xA3],
       lit ''better'', lit ''worse'', lit ''best'', lit ''worst''],
      [lit [CHR 0xD8, CHR 0xA3, CHR 0xD9, CHR 0x83, CHR 0xD8, CHR 0xAB, CHR 0xD8, CHR 0xB1, CHR 0x20, CHR 0xD9, CHR 0x85, CHR 0xD9, CHR 0x86],
       lit [CHR 0xD8, CHR 0xA3, CHR 0xD9, CHR 0x82, CHR 0xD9, CHR 0x84, CHR 0x20, CHR 0xD9, CHR 0x85, CHR 0xD9, CHR 0x86],
       lit ''more than'', lit ''less than'', lit ''greater'', lit ''smaller'']]"

definition TREND_PATTERNS :: "pattern list" where
  "TREND_PATTERNS =
     [[lit [CHR 0xD8, CHR 0xA7, CHR 0xD8, CHR 0xAA, CHR 0xD8, CHR 0xAC, CHR 0xD8, CHR 0xA7, CHR 0xD9, CHR 0x87],
       lit [CHR 0xD8, CHR 0xA7, CHR 0xD8, CHR 0xAA, CHR 0xD8, CHR 0xAC, CHR 0xD8, CHR 0xA7, CHR 0xD9, CHR 0x87, CHR 0xD8, CHR 0xA7, CHR 0xD8, CHR 0xAA],
       lit ''trend'', lit ''trends'',
       lit [CHR 0xD8, CHR 0xAA, CHR 0xD8, CHR 0xB7, CHR 0xD9, CHR 0x88, CHR 0xD8, CHR 0xB1],
       lit [CHR 0xD8, CHR 0xAA, CHR 0xD8, CHR 0xB7, CHR 0xD9, CHR 0x88, CHR 0xD8, CHR 0xB1, CHR 0xD8, CHR 0xA7, CHR 0xD8, CHR 0xAA]],
      [lit [CHR 0xD8, CHR 0xA8, CHR 0xD9, CHR 0x85, CHR 0xD8, CHR 0xB1, CHR 0xD9, CHR 0x88, CHR 0xD8, CHR 0xB1, CHR 0x20, CHR 0xD8, CHR 0xA7, CHR 0xD9, CHR 0x84, CHR 0xD9, CHR 0x88, CHR 0xD9, CHR 0x82, CHR 0xD8, CHR 0xAA],
       lit ''over time'', lit ''over the years'',
       lit [CHR 0xD8, CHR 0xAE, CHR 0xD9, CHR 0x84, CHR 0xD8, CHR 0xA7, CHR 0xD9, CHR 0x84],
       lit ''during''],
      [lit [CHR 0xD9, CHR 0x86, CHR 0xD9, CHR 0x85, CHR 0xD9, CHR 0x88],
       lit [CHR 0xD8, CHR 0xA7, CHR 0xD9, CHR 0x86, CHR 0xD8, CHR 0xAE, CHR 0xD9, CHR 0x81, CHR 0xD8, CHR 0xA7, CHR 0xD8, CHR 0xB6],
       lit ''growth'', lit ''decline'', lit ''increase'', lit ''decrease'']]"

definition CORRELATION_PATTERNS :: "pattern list" where
  "CORRELATION_PATTERNS =
     [[lit [CHR 0xD8, CHR 0xB9, CHR 0xD9, CHR 0x84, CHR 0xD8, CHR 0xA7, CHR 0xD9, CHR 0x82, CHR 0xD8, CHR 0xA9],
       lit [CHR 0xD8, CHR 0xA7, CHR 0xD8, CHR 0xB1, CHR 0xD8, CHR 0xAA, CHR 0xD8, CHR 0xA8, CHR 0xD8, CHR 0xA7, CHR 0xD8, CHR 0xB7],
       lit ''relationship'', lit ''correlation'', lit ''correlate''],
      [lit [CHR 0xD9, CHR 0x87, CHR 0xD9, CHR 0x84, CHR 0x20, CHR 0xD9, CHR 0x8A, CHR 0xD8, CHR 0xA4, CHR 0xD8, CHR 0xAB, CHR 0xD8, CHR 0xB1],
       lit ''does'' @ [ZeroOrMore AnyChar] @ lit ''affect'', lit ''impact'',
       lit [CHR 0xD8, CHR 0xAA, CHR 0xD8, CHR 0xA3, CHR 0xD8, CHR 0xAB, CHR 0xD9, CHR 0x8A, CHR 0xD8, CHR 0xB1]],
      [lit [CHR 0xD9, CHR 0x8A, CHR 0xD8, CHR 0xB1, CHR 0xD8, CHR 0xAA, CHR 0xD8, CHR 0xA8, CHR 0xD8, CHR 0xB7],
       lit ''related'', lit ''linked'', lit ''connected'']]"

definition metric_keywords :: "(string \<times> pattern list) list" where
  "metric_keywords =
     [(''revenue'', [[lit [CHR 0xD8, CHR 0xA5, CHR 0xD9, CHR 0x8A, CHR 0xD8, CHR 0xB1, CHR 0xD8, CHR 0xA7, CHR 0xD8, CHR 0xAF],
                      lit ''revenue'', lit ''income'', lit ''money'',
                      lit [CHR 0xD9, CHR 0x85, CHR 0xD8, CHR 0xA8, CHR 0xD9, CHR 0x84, CHR 0xD8, CHR 0xBA]]]),
      (''count'', [[lit [CHR 0xD8, CHR 0xB9, CHR 0xD8, CHR 0xAF, CHR 0xD8, CHR 0xAF],
                    lit ''count'', lit ''number'', lit ''quantity'']]),
      (''price'', [[lit [CHR 0xD8, CHR 0xB3, CHR 0xD8, CHR 0xB9, CHR 0xD8, CHR 0xB1],
                    lit ''price'', lit ''cost'',
                    lit [CHR 0xD8, CHR 0xAA, CHR 0xD9, CHR 0x83, CHR 0xD9, CHR 0x84, CHR 0xD9, CHR 0x81, CHR 0xD8, CHR 0xA9]]]),
      (''rate'', [[lit [CHR 0xD9, CHR 0x85, CHR 0xD8, CHR 0xB9, CHR 0xD8, CHR 0xAF, CHR 0xD9, CHR 0x84],
                   lit ''rate'', lit ''rating'',
                   lit [CHR 0xD8, CHR 0xAA, CHR 0xD9, CHR 0x82, CHR 0xD9, CHR 0x8A, CHR 0xD9, CHR 0x8A, CHR 0xD9, CHR 0x85]]]),
      (''amount'', [[lit [CHR 0xD9, CHR 0x85, CHR 0xD8, CHR 0xA8, CHR 0xD9, CHR 0x84, CHR 0xD8, CHR 0xBA],
                     lit ''amount'', lit ''value'',
                     lit [CHR 0xD9, CHR 0x82, CHR 0xD9, CHR 0x8A, CHR 0xD9, CHR 0x85, CHR 0xD8, CHR 0xA9]]])]"

definition known_tables :: "string list" where
  "known_tables =
     [''film'', ''category'', ''actor'', ''customer'', ''rental'', ''payment'', ''store'', ''staff'', ''inventory'', ''address'', ''city'', ''country'', ''language'', ''film_actor'', ''film_category'']"


text \<open>
  The dictionary \<open>detect\<close> returns. \<open>itype\<close> is its key \<open>"type"\<close> and
  \<open>intent_analysis_type\<close> its key \<open>"analysis_type"\<close>. \<open>entities\<close> is a set:
  the source returns \<open>list(set(entities))\<close>, whose order Python does not fix. The
  confidence is one of the decimal literals of the source.
\<close>

record intent =
  itype :: string
  entities :: "string set"
  metrics :: "string list"
  confidence :: rat
  analysis_required :: bool
  intent_analysis_type :: "string option"

text \<open>\<open>re.search(pattern, question, re.IGNORECASE)\<close> finds a match.\<close>

definition matches :: "pattern \<Rightarrow> string \<Rightarrow> bool" where
  "matches p question = (re_search p question \<lparr>IGNORECASE = True, DOTALL = False\<rparr> \<noteq> None)"

definition detect_intent_type :: "string \<Rightarrow> string" where
  "detect_intent_type question =
     (if list_ex (\<lambda>p. matches p question) CORRELATION_PATTERNS then ''correlation''
      else if list_ex (\<lambda>p. matches p question) TREND_PATTERNS then ''trend''
      else if list_ex (\<lambda>p. matches p question) COMPARISON_PATTERNS then ''comparison''
      else if list_ex (\<lambda>p. matches p question) AGGREGATE_PATTERNS then ''aggregate''
      else if list_ex (\<lambda>p. matches p question) LIST_PATTERNS then ''list''
      else ''unknown'')"

definition table_patterns :: "string \<Rightarrow> pattern list" where
  "table_patterns table =
     [[[WordBoundary] @ lit table @ [WordBoundary]],
      [lit table @ lit ''s''],
      [lit table @ lit ''es'']]"

definition extract_entities :: "string \<Rightarrow> string set" where
  "extract_entities question =
     set (filter (\<lambda>table. list_ex (\<lambda>p. matches p question) (table_patterns table)) known_tables)"

definition extract_metrics :: "string \<Rightarrow> string list" where
  "extract_metrics question =
     map fst (filter (\<lambda>(metric, patterns). list_ex (\<lambda>p. matches p question) patterns) metric_keywords)"

definition count_matches :: "pattern list \<Rightarrow> string \<Rightarrow> nat" where
  "count_matches patterns question = length (filter (\<lambda>p. matches p question) patterns)"

definition calculate_confidence :: "string \<Rightarrow> string \<Rightarrow> rat" where
  "calculate_confidence intent_type question =
     (if intent_type = ''unknown'' then 3 / 10
      else
        let pattern_counts =
              [(''list'', count_matches LIST_PATTERNS question),
               (''aggregate'', count_matches AGGREGATE_PATTERNS question),
               (''comparison'', count_matches COMPARISON_PATTERNS question),
               (''trend'', count_matches TREND_PATTERNS question),
               (''correlation'', count_matches CORRELATION_PATTERNS question)];
            matches = (case map_of pattern_counts intent_type of Some n \<Rightarrow> n | None \<Rightarrow> 0)
        in if matches \<ge> 2 then 9 / 10 else if matches = 1 then 7 / 10 else 5 / 10)"

definition detect :: "string \<Rightarrow> intent" where
  "detect question =
     (let question_lower = lower question;
          intent_type = detect_intent_type question_lower;
          entities = extract_entities question_lower;
          metrics = extract_metrics question_lower;
          confidence = calculate_confidence intent_type question_lower;
          analysis_required = (intent_type \<in> set [''correlation'', ''comparison'', ''trend'', ''aggregate'']);
          analysis_type = (if analysis_required then Some ''statistical'' else None)
      in \<lparr>itype = intent_type, entities = entities, metrics = metrics,
          confidence = confidence, analysis_required = analysis_required,
          intent_analysis_type = analysis_type\<rparr>)"

section \<open>Result sets\<close>

text \<open>
  A row of a result set maps column names to scalar values; it is kept as the list of its
  items, in column order. Numbers are exact reals in the model.
\<close>

datatype cell = Null | Num real | Text string | Flag bool | Timestamp nat

type_synonym row = "(string \<times> cell) list"

section \<open>\<open>app/db/executor.py\<close>: the SQL executor\<close>

text \<open>
  \<open>SQLExecutor.execute\<close> is the only caller of the validator and the only place that
  sends SQL to the database. The model returns, next to the triple
  \<open>(success, data, error_message)\<close>, the calls it made to these two collaborators, in
  order. \<open>parse\<close> stands for \<open>sqlparse.parse\<close> and \<open>db\<close> for the database
  session: \<open>Inl\<close> the message of the exception it raises, \<open>Inr\<close> the rows it returns.
\<close>

datatype call = ValidatorCalled string | DatabaseCalled string

definition execute ::
  "settings \<Rightarrow> (string \<Rightarrow> string + token list list) \<Rightarrow> (string \<Rightarrow> string + row list) \<Rightarrow> string
     \<Rightarrow> (bool \<times> row list option \<times> string option) \<times> call list" where
  "execute cfg parse db sql =
     (case fst (validate cfg (parse (strip sql)) sql) of
        (False, error) \<Rightarrow> ((False, None, error), [ValidatorCalled sql])
      | (True, _) \<Rightarrow>
          let safe_sql = sanitize cfg sql
          in (case db safe_sql of
                Inr data \<Rightarrow> ((True, Some data, None), [ValidatorCalled sql, DatabaseCalled safe_sql])
              | Inl error_msg \<Rightarrow>
                  ((False, None, Some error_msg), [ValidatorCalled sql, DatabaseCalled safe_sql])))"

section \<open>\<open>app/services/statistical_analysis.py\<close>: the statistical analysis engine\<close>

text \<open>
  The engine works on a \<open>pandas\<close> data frame. The model keeps of a frame what the
  engine reads: the columns in order, each with its name, the kind of its \<open>dtype\<close>
  as \<open>select_dtypes\<close> tells them apart, and its cells. A missing value of a numeric
  column (\<open>NaN\<close>) is the cell \<open>Null\<close>. A number is the real number a double denotes;
  there is no infinite value. The mean, \<open>round\<close> and the division of the trend branch
  are taken in exact arithmetic.
\<close>

datatype dtype = Number | Object | Boolean | Datetime

record column =
  name :: string
  dtype :: dtype
  cells :: "cell list"

type_synonym dataframe = "column list"

text \<open>\<open>df.select_dtypes(include=[t]).columns.tolist()\<close>\<close>

definition select_dtypes :: "dataframe \<Rightarrow> dtype \<Rightarrow> string list" where
  "select_dtypes df t = map name (filter (\<lambda>c. dtype c = t) df)"

text \<open>\<open>df[col]\<close>; \<open>None\<close> is the \<open>KeyError\<close> of a missing column.\<close>

definition getitem :: "dataframe \<Rightarrow> string \<Rightarrow> cell list option" where
  "getitem df col = map_option cells (find (\<lambda>c. name c = col) df)"

fun isna :: "cell \<Rightarrow> bool" where
  "isna Null = True"
| "isna c = False"

fun number :: "cell \<Rightarrow> real" where
  "number (Num r) = r"
| "number c = 0"

text \<open>\<open>series.dropna().tolist()\<close> of a numeric column.\<close>

definition dropna :: "cell list \<Rightarrow> real list" where
  "dropna cs = map number (filter (\<lambda>c. \<not> isna c) cs)"

text \<open>\<open>np.mean\<close> of a non-empty list.\<close>

definition mean :: "real list \<Rightarrow> real" where
  "mean xs = sum_list xs / real (length xs)"

text \<open>
  \<open>round(x, ndigits)\<close> and the format \<open>{x:.nf}\<close>: both round to the nearest
  multiple of \<open>10^-n\<close>, a tie to the even one.
\<close>

definition round_half_even :: "real \<Rightarrow> int" where
  "round_half_even x =
     (let f = \<lfloor>x\<rfloor>; d = x - of_int f
      in if d < 1 / 2 then f else if 1 / 2 < d then f + 1 else if even f then f else f + 1)"

definition py_round :: "real \<Rightarrow> nat \<Rightarrow> real" where
  "py_round x ndigits = of_int (round_half_even (x * 10 ^ ndigits)) / 10 ^ ndigits"

definition format_fixed :: "nat \<Rightarrow> real \<Rightarrow> string" where
  "format_fixed ndigits x =
     (let scaled = nat (round_half_even (\<bar>x\<bar> * 10 ^ ndigits));
          frac = str_of_nat (scaled mod 10 ^ ndigits)
      in (if x < 0 then ''-'' else [])
         @ str_of_nat (scaled div 10 ^ ndigits)
         @ (if ndigits = 0 then []
            else ''.'' @ replicate (ndigits - length frac) (CHR ''0'') @ frac))"

text \<open>
  A value of the dictionary \<open>statistical_result\<close>, which is kept as the list of its
  items in insertion order. The field \<open>interpretation'\<close> is the key
  \<open>"interpretation"\<close> of the result.
\<close>

datatype pyval = PyNone | PyStr string | PyNum real | PyInt int

record finding =
  has_analysis :: bool
  analysis_type :: "string option"
  statistical_result :: "(string \<times> pyval) list"
  interpretation' :: "string option"
  visualization_type :: string

text \<open>
  The floating-point literals the correlation branch compares with: each is the double
  nearest to the decimal, written as its exact value, so that a comparison of a double
  with the literal is the comparison of the two real numbers.
\<close>

definition float_0_2 :: real where "float_0_2 = 3602879701896397 / 2 ^ 54"
definition float_0_3 :: real where "float_0_3 = 5404319552844595 / 2 ^ 54"
definition float_0_4 :: real where "float_0_4 = 3602879701896397 / 2 ^ 53"
definition float_0_6 :: real where "float_0_6 = 5404319552844595 / 2 ^ 53"
definition float_0_8 :: real where "float_0_8 = 3602879701896397 / 2 ^ 52"

text \<open>The Arabic messages of the engine, as the bytes of their UTF-8 encoding.\<close>

definition correlation_no_columns :: string where
  "correlation_no_columns =
     [CHR 0xD9, CHR 0x84, CHR 0xD8, CHR 0xA7, CHR 0x20, CHR 0xD8, CHR 0xAA, CHR 0xD9, CHR 0x88,
      CHR 0xD8, CHR 0xAC, CHR 0xD8, CHR 0xAF, CHR 0x20, CHR 0xD8, CHR 0xA3, CHR 0xD8, CHR 0xB9,
      CHR 0xD9, CHR 0x85, CHR 0xD8, CHR 0xAF, CHR 0xD8, CHR 0xA9, CHR 0x20, CHR 0xD8, CHR 0xB1,
      CHR 0xD9, CHR 0x82, CHR 0xD9, CHR 0x85, CHR 0xD9, CHR 0x8A, CHR 0xD8, CHR 0xA9, CHR 0x20,
      CHR 0xD9, CHR 0x83, CHR 0xD8, CHR 0xA7, CHR 0xD9, CHR 0x81, CHR 0xD9, CHR 0x8A, CHR 0xD8,
      CHR 0xA9, CHR 0x20, CHR 0xD9, CHR 0x84, CHR 0xD8, CHR 0xAA, CHR 0xD8, CHR 0xAD, CHR 0xD9,
      CHR 0x84, CHR 0xD9, CHR 0x8A, CHR 0xD9, CHR 0x84, CHR 0x20, CHR 0xD8, CHR 0xA7, CHR 0xD9,
      CHR 0x84, CHR 0xD8, CHR 0xA7, CHR 0xD8, CHR 0xB1, CHR 0xD8, CHR 0xAA, CHR 0xD8, CHR 0xA8,
      CHR 0xD8, CHR 0xA7, CHR 0xD8, CHR 0xB7]"

definition correlation_no_data :: string where
  "correlation_no_data =
     [CHR 0xD9, CHR 0x84, CHR 0xD8, CHR 0xA7, CHR 0x20, CHR 0xD8, CHR 0xAA, CHR 0xD9, CHR 0x88,
      CHR 0xD8, CHR 0xAC, CHR 0xD8, CHR 0xAF, CHR 0x20, CHR 0xD8, CHR 0xA8, CHR 0xD9, CHR 0x8A,
      CHR 0xD8, CHR 0xA7, CHR 0xD9, CHR 0x86, CHR 0xD8, CHR 0xA7, CHR 0xD8, CHR 0xAA, CHR 0x20,
      CHR 0xD9, CHR 0x83, CHR 0xD8, CHR 0xA7, CHR 0xD9, CHR 0x81, CHR 0xD9, CHR 0x8A, CHR 0xD8,
      CHR 0xA9, CHR 0x20, CHR 0xD9, CHR 0x84, CHR 0xD8, CHR 0xAA, CHR 0xD8, CHR 0xAD, CHR 0xD9,
      CHR 0x84, CHR 0xD9, CHR 0x8A, CHR 0xD9, CHR 0x84, CHR 0x20, CHR 0xD8, CHR 0xA7, CHR 0xD9,
      CHR 0x84, CHR 0xD8, CHR 0xA7, CHR 0xD8, CHR 0xB1, CHR 0xD8, CHR 0xAA, CHR 0xD8, CHR 0xA8,
      CHR 0xD8, CHR 0xA7, CHR 0xD8, CHR 0xB7]"

definition correlation_failed :: "string \<Rightarrow> string" where
  "correlation_failed e =
     [CHR 0xD9, CHR 0x81, CHR 0xD8, CHR 0xB4, CHR 0xD9, CHR 0x84, CHR 0x20, CHR 0xD8, CHR 0xAA,
      CHR 0xD8, CHR 0xAD, CHR 0xD9, CHR 0x84, CHR 0xD9, CHR 0x8A, CHR 0xD9, CHR 0x84, CHR 0x20,
      CHR 0xD8, CHR 0xA7, CHR 0xD9, CHR 0x84, CHR 0xD8, CHR 0xA7, CHR 0xD8, CHR 0xB1, CHR 0xD8,
      CHR 0xAA, CHR 0xD8, CHR 0xA8, CHR 0xD8, CHR 0xA7, CHR 0xD8, CHR 0xB7, CHR 0x3A, CHR 0x20]
     @ e"

definition trend_no_columns :: string where
  "trend_no_columns =
     [CHR 0xD9, CHR 0x84, CHR 0xD8, CHR 0xA7, CHR 0x20, CHR 0xD8, CHR 0xAA, CHR 0xD9, CHR 0x88,
      CHR 0xD8, CHR 0xAC, CHR 0xD8, CHR 0xAF, CHR 0x20, CHR 0xD8, CHR 0xA8, CHR 0xD9, CHR 0x8A,
      CHR 0xD8, CHR 0xA7, CHR 0xD9, CHR 0x86, CHR 0xD8, CHR 0xA7, CHR 0xD8, CHR 0xAA, CHR 0x20,
      CHR 0xD8, CHR 0xB1, CHR 0xD9, CHR 0x82, CHR 0xD9, CHR 0x85, CHR 0xD9, CHR 0x8A, CHR 0xD8,
      CHR 0xA9, CHR 0x20, CHR 0xD9, CHR 0x84, CHR 0xD8, CHR 0xAA, CHR 0xD8, CHR 0xAD, CHR 0xD9,
      CHR 0x84, CHR 0xD9, CHR 0x8A, CHR 0xD9, CHR 0x84, CHR 0x20, CHR 0xD8, CHR 0xA7, CHR 0xD9,
      CHR 0x84, CHR 0xD8, CHR 0xA7, CHR 0xD8, CHR 0xAA, CHR 0xD8, CHR 0xAC, CHR 0xD8, CHR 0xA7,
      CHR 0xD9, CHR 0x87]"

definition trend_no_data :: string where
  "trend_no_data =
     [CHR 0xD9, CHR 0x84, CHR 0xD8, CHR 0xA7, CHR 0x20, CHR 0xD8, CHR 0xAA, CHR 0xD9, CHR 0x88,
      CHR 0xD8, CHR 0xAC, CHR 0xD8, CHR 0xAF, CHR 0x20, CHR 0xD8, CHR 0xA8, CHR 0xD9, CHR 0x8A,
      CHR 0xD8, CHR 0xA7, CHR 0xD9, CHR 0x86, CHR 0xD8, CHR 0xA7, CHR 0xD8, CHR 0xAA, CHR 0x20,
      CHR 0xD9, CHR 0x83, CHR 0xD8, CHR 0xA7, CHR 0xD9, CHR 0x81, CHR 0xD9, CHR 0x8A, CHR 0xD8,
      CHR 0xA9, CHR 0x20, CHR 0xD9, CHR 0x84, CHR 0xD8, CHR 0xAA, CHR 0xD8, CHR 0xAD, CHR 0xD9,
      CHR 0x84, CHR 0xD9, CHR 0x8A, CHR 0xD9, CHR 0x84, CHR 0x20, CHR 0xD8, CHR 0xA7, CHR 0xD9,
      CHR 0x84, CHR 0xD8, CHR 0xA7, CHR 0xD8, CHR 0xAA, CHR 0xD8, CHR 0xAC, CHR 0xD8, CHR 0xA7,
      CHR 0xD9, CHR 0x87]"

definition trend_failed :: "string \<Rightarrow> string" where
  "trend_failed e =
     [CHR 0xD9, CHR 0x81, CHR 0xD8, CHR 0xB4, CHR 0xD9, CHR 0x84, CHR 0x20, CHR 0xD8, CHR 0xAA,
      CHR 0xD8, CHR 0xAD, CHR 0xD9, CHR 0x84, CHR 0xD9, CHR 0x8A, CHR 0xD9, CHR 0x84, CHR 0x20,
      CHR 0xD8, CHR 0xA7, CHR 0xD9, CHR 0x84, CHR 0xD8, CHR 0xA7, CHR 0xD8, CHR 0xAA, CHR 0xD8,
      CHR 0xAC, CHR 0xD8, CHR 0xA7, CHR 0xD9, CHR 0x87, CHR 0x3A, CHR 0x20]
     @ e"

definition strength_ar :: "(string \<times> string) list" where
  "strength_ar =
     [(''very_weak'',
       [CHR 0xD8, CHR 0xB6, CHR 0xD8, CHR 0xB9, CHR 0xD9, CHR 0x8A, CHR 0xD9, CHR 0x81, CHR 0xD8,
       CHR 0xA9, CHR 0x20, CHR 0xD8, CHR 0xAC, CHR 0xD8, CHR 0xAF, CHR 0xD8, CHR 0xA7, CHR 0xD9,
       CHR 0x8B]),
      (''weak'',
       [CHR 0xD8, CHR 0xB6, CHR 0xD8, CHR 0xB9, CHR 0xD9, CHR 0x8A, CHR 0xD9, CHR 0x81, CHR 0xD8,
       CHR 0xA9]),
      (''moderate'',
       [CHR 0xD9, CHR 0x85, CHR 0xD8, CHR 0xAA, CHR 0xD9, CHR 0x88, CHR 0xD8, CHR 0xB3, CHR 0xD8,
       CHR 0xB7, CHR 0xD8, CHR 0xA9]),
      (''strong'',
       [CHR 0xD9, CHR 0x82, CHR 0xD9, CHR 0x88, CHR 0xD9, CHR 0x8A, CHR 0xD8, CHR 0xA9]),
      (''very_strong'',
       [CHR 0xD9, CHR 0x82, CHR 0xD9, CHR 0x88, CHR 0xD9, CHR 0x8A, CHR 0xD8, CHR 0xA9, CHR 0x20,
       CHR 0xD8, CHR 0xAC, CHR 0xD8, CHR 0xAF, CHR 0xD8, CHR 0xA7, CHR 0xD9, CHR 0x8B])]"

definition direction_ar :: "(string \<times> string) list" where
  "direction_ar =
     [(''positive'',
       [CHR 0xD9, CHR 0x85, CHR 0xD9, CHR 0x88, CHR 0xD8, CHR 0xAC, CHR 0xD8, CHR 0xA8, CHR 0xD8,
       CHR 0xA9]),
      (''negative'',
       [CHR 0xD8, CHR 0xB3, CHR 0xD8, CHR 0xA7, CHR 0xD9, CHR 0x84, CHR 0xD8, CHR 0xA8, CHR 0xD8,
       CHR 0xA9])]"

definition generate_correlation_interpretation ::
  "real \<Rightarrow> string \<Rightarrow> string \<Rightarrow> string \<Rightarrow> string \<Rightarrow> string" where
  "generate_correlation_interpretation correlation strength direction x_col y_col =
     (let strength_text = (case map_of strength_ar strength of Some t \<Rightarrow> t | None \<Rightarrow> strength);
          direction_text = (case map_of direction_ar direction of Some t \<Rightarrow> t | None \<Rightarrow> direction);
          interpretation =
            [CHR 0xF0, CHR 0x9F, CHR 0x93, CHR 0x8A, CHR 0x20, CHR 0xD8, CHR 0xA7, CHR 0xD9,
             CHR 0x84, CHR 0xD8, CHR 0xAA, CHR 0xD8, CHR 0xAD, CHR 0xD9, CHR 0x84, CHR 0xD9,
             CHR 0x8A, CHR 0xD9, CHR 0x84, CHR 0x20, CHR 0xD8, CHR 0xA7, CHR 0xD9, CHR 0x84,
             CHR 0xD8, CHR 0xA5, CHR 0xD8, CHR 0xAD, CHR 0xD8, CHR 0xB5, CHR 0xD8, CHR 0xA7,
             CHR 0xD8, CHR 0xA6, CHR 0xD9, CHR 0x8A, CHR 0x20, CHR 0xD9, CHR 0x8A, CHR 0xD8,
             CHR 0xB8, CHR 0xD9, CHR 0x87, CHR 0xD8, CHR 0xB1, CHR 0x20, CHR 0xD8, CHR 0xA3,
             CHR 0xD9, CHR 0x86, CHR 0x20, CHR 0xD9, CHR 0x85, CHR 0xD8, CHR 0xB9, CHR 0xD8,
             CHR 0xA7, CHR 0xD9, CHR 0x85, CHR 0xD9, CHR 0x84, CHR 0x20, CHR 0xD8, CHR 0xA7,
             CHR 0xD9, CHR 0x84, CHR 0xD8, CHR 0xA7, CHR 0xD8, CHR 0xB1, CHR 0xD8, CHR 0xAA,
             CHR 0xD8, CHR 0xA8, CHR 0xD8, CHR 0xA7, CHR 0xD8, CHR 0xB7, CHR 0x20, CHR 0xD8,
             CHR 0xA8, CHR 0xD9, CHR 0x8A, CHR 0xD9, CHR 0x86, CHR 0x20]
            @ x_col
            @ [CHR 0x20, CHR 0xD9, CHR 0x88, CHR 0x20]
            @ y_col
            @ [CHR 0x20, CHR 0xD9, CHR 0x87, CHR 0xD9, CHR 0x88, CHR 0x20, CHR 0x2A, CHR 0x2A]
            @ (format_fixed 3 correlation)
            @ [CHR 0x2A, CHR 0x2A, CHR 0x2E, CHR 0x0A, CHR 0x0A, CHR 0xF0, CHR 0x9F, CHR 0x94,
             CHR 0x8D, CHR 0x20, CHR 0xD9, CHR 0x87, CHR 0xD8, CHR 0xB0, CHR 0xD8, CHR 0xA7,
             CHR 0x20, CHR 0xD9, CHR 0x8A, CHR 0xD8, CHR 0xB4, CHR 0xD9, CHR 0x8A, CHR 0xD8,
             CHR 0xB1, CHR 0x20, CHR 0xD8, CHR 0xA5, CHR 0xD9, CHR 0x84, CHR 0xD9, CHR 0x89,
             CHR 0x20, CHR 0x2A, CHR 0x2A, CHR 0xD8, CHR 0xB9, CHR 0xD9, CHR 0x84, CHR 0xD8,
             CHR 0xA7, CHR 0xD9, CHR 0x82, CHR 0xD8, CHR 0xA9, CHR 0x20]
            @ strength_text
            @ ''** (''
            @ direction_text
            @ [CHR 0x29, CHR 0xD8, CHR 0x8C, CHR 0x20]
      in if \<bar>correlation\<bar> < float_0_3
         then interpretation
            @ [CHR 0xD9, CHR 0x85, CHR 0xD9, CHR 0x85, CHR 0xD8, CHR 0xA7, CHR 0x20, CHR 0xD9,
             CHR 0x8A, CHR 0xD8, CHR 0xB9, CHR 0xD9, CHR 0x86, CHR 0xD9, CHR 0x8A, CHR 0x20,
             CHR 0xD8, CHR 0xA3, CHR 0xD9, CHR 0x86, CHR 0x20]
            @ x_col
            @ [CHR 0x20, CHR 0x2A, CHR 0x2A, CHR 0xD9, CHR 0x84, CHR 0xD9, CHR 0x8A, CHR 0xD8,
             CHR 0xB3, CHR 0x20, CHR 0xD8, CHR 0xB9, CHR 0xD8, CHR 0xA7, CHR 0xD9, CHR 0x85,
             CHR 0xD9, CHR 0x84, CHR 0xD9, CHR 0x8B, CHR 0xD8, CHR 0xA7, CHR 0x20, CHR 0xD9,
             CHR 0x85, CHR 0xD8, CHR 0xA4, CHR 0xD8, CHR 0xAB, CHR 0xD8, CHR 0xB1, CHR 0xD9,
             CHR 0x8B, CHR 0xD8, CHR 0xA7, CHR 0x20, CHR 0xD8, CHR 0xA8, CHR 0xD8, CHR 0xB4,
             CHR 0xD9, CHR 0x83, CHR 0xD9, CHR 0x84, CHR 0x20, CHR 0xD9, CHR 0x88, CHR 0xD8,
             CHR 0xA7, CHR 0xD8, CHR 0xB6, CHR 0xD8, CHR 0xAD, CHR 0x2A, CHR 0x2A, CHR 0x20,
             CHR 0xD8, CHR 0xB9, CHR 0xD9, CHR 0x84, CHR 0xD9, CHR 0x89, CHR 0x20]
            @ y_col
            @ ''.''
         else if \<bar>correlation\<bar> < float_0_6
         then interpretation
            @ [CHR 0xD9, CHR 0x85, CHR 0xD9, CHR 0x85, CHR 0xD8, CHR 0xA7, CHR 0x20, CHR 0xD9,
             CHR 0x8A, CHR 0xD8, CHR 0xB9, CHR 0xD9, CHR 0x86, CHR 0xD9, CHR 0x8A, CHR 0x20,
             CHR 0xD8, CHR 0xA3, CHR 0xD9, CHR 0x86, CHR 0x20]
            @ x_col
            @ [CHR 0x20, CHR 0xD9, CHR 0x84, CHR 0xD9, CHR 0x87, CHR 0x20, CHR 0x2A, CHR 0x2A,
             CHR 0xD8, CHR 0xAA, CHR 0xD8, CHR 0xA3, CHR 0xD8, CHR 0xAB, CHR 0xD9, CHR 0x8A,
             CHR 0xD8, CHR 0xB1, CHR 0x20, CHR 0xD9, CHR 0x85, CHR 0xD8, CHR 0xAA, CHR 0xD9,
             CHR 0x88, CHR 0xD8, CHR 0xB3, CHR 0xD8, CHR 0xB7, CHR 0x2A, CHR 0x2A, CHR 0x20,
             CHR 0xD8, CHR 0xB9, CHR 0xD9, CHR 0x84, CHR 0xD9, CHR 0x89, CHR 0x20]
            @ y_col
            @ ''.''
         else interpretation
            @ [CHR 0xD9, CHR 0x85, CHR 0xD9, CHR 0x85, CHR 0xD8, CHR 0xA7, CHR 0x20, CHR 0xD9,
             CHR 0x8A, CHR 0xD8, CHR 0xB9, CHR 0xD9, CHR 0x86, CHR 0xD9, CHR 0x8A, CHR 0x20,
             CHR 0xD8, CHR 0xA3, CHR 0xD9, CHR 0x86, CHR 0x20]
            @ x_col
            @ [CHR 0x20, CHR 0xD9, CHR 0x84, CHR 0xD9, CHR 0x87, CHR 0x20, CHR 0x2A, CHR 0x2A,
             CHR 0xD8, CHR 0xAA, CHR 0xD8, CHR 0xA3, CHR 0xD8, CHR 0xAB, CHR 0xD9, CHR 0x8A,
             CHR 0xD8, CHR 0xB1, CHR 0x20, CHR 0xD9, CHR 0x82, CHR 0xD9, CHR 0x88, CHR 0xD9,
             CHR 0x8A, CHR 0x2A, CHR 0x2A, CHR 0x20, CHR 0xD8, CHR 0xB9, CHR 0xD9, CHR 0x84,
             CHR 0xD9, CHR 0x89, CHR 0x20]
            @ y_col
            @ ''.'')"

definition trend_direction_ar :: "(string \<times> string) list" where
  "trend_direction_ar =
     [(''increasing'',
       [CHR 0xD8, CHR 0xAA, CHR 0xD8, CHR 0xB5, CHR 0xD8, CHR 0xA7, CHR 0xD8, CHR 0xB9, CHR 0xD8,
       CHR 0xAF, CHR 0xD9, CHR 0x8A]),
      (''decreasing'',
       [CHR 0xD8, CHR 0xAA, CHR 0xD9, CHR 0x86, CHR 0xD8, CHR 0xA7, CHR 0xD8, CHR 0xB2, CHR 0xD9,
       CHR 0x84, CHR 0xD9, CHR 0x8A])]"

definition generate_trend_interpretation :: "string \<Rightarrow> real \<Rightarrow> string \<Rightarrow> string" where
  "generate_trend_interpretation direction strength metric_col =
     (let direction_text =
            (case map_of trend_direction_ar direction of Some t \<Rightarrow> t | None \<Rightarrow> direction);
          strength_pct = strength * 100;
          interpretation =
            [CHR 0xF0, CHR 0x9F, CHR 0x93, CHR 0x88, CHR 0x20, CHR 0xD8, CHR 0xA7, CHR 0xD9,
             CHR 0x84, CHR 0xD8, CHR 0xAA, CHR 0xD8, CHR 0xAD, CHR 0xD9, CHR 0x84, CHR 0xD9,
             CHR 0x8A, CHR 0xD9, CHR 0x84, CHR 0x20, CHR 0xD9, CHR 0x8A, CHR 0xD8, CHR 0xB8,
             CHR 0xD9, CHR 0x87, CHR 0xD8, CHR 0xB1, CHR 0x20, CHR 0x2A, CHR 0x2A, CHR 0xD8,
             CHR 0xA7, CHR 0xD8, CHR 0xAA, CHR 0xD8, CHR 0xAC, CHR 0xD8, CHR 0xA7, CHR 0xD9,
             CHR 0x87, CHR 0x20]
            @ direction_text
            @ [CHR 0x2A, CHR 0x2A, CHR 0x20, CHR 0xD9, CHR 0x81, CHR 0xD9, CHR 0x8A, CHR 0x20]
            @ metric_col
            @ [CHR 0x2E, CHR 0x0A, CHR 0x0A, CHR 0xF0, CHR 0x9F, CHR 0x94, CHR 0x8D, CHR 0x20,
             CHR 0xD9, CHR 0x82, CHR 0xD9, CHR 0x88, CHR 0xD8, CHR 0xA9, CHR 0x20, CHR 0xD8,
             CHR 0xA7, CHR 0xD9, CHR 0x84, CHR 0xD8, CHR 0xA7, CHR 0xD8, CHR 0xAA, CHR 0xD8,
             CHR 0xAC, CHR 0xD8, CHR 0xA7, CHR 0xD9, CHR 0x87, CHR 0x3A, CHR 0x20, CHR 0x2A,
             CHR 0x2A]
            @ (format_fixed 1 strength_pct)
            @ ''%** ''
      in if strength < 0.1
         then interpretation
            @ [CHR 0x28, CHR 0xD8, CHR 0xA7, CHR 0xD8, CHR 0xAA, CHR 0xD8, CHR 0xAC, CHR 0xD8,
             CHR 0xA7, CHR 0xD9, CHR 0x87, CHR 0x20, CHR 0xD8, CHR 0xB6, CHR 0xD8, CHR 0xB9,
             CHR 0xD9, CHR 0x8A, CHR 0xD9, CHR 0x81, CHR 0x29]
         else if strength < 0.3
         then interpretation
            @ [CHR 0x28, CHR 0xD8, CHR 0xA7, CHR 0xD8, CHR 0xAA, CHR 0xD8, CHR 0xAC, CHR 0xD8,
             CHR 0xA7, CHR 0xD9, CHR 0x87, CHR 0x20, CHR 0xD9, CHR 0x85, CHR 0xD8, CHR 0xAA,
             CHR 0xD9, CHR 0x88, CHR 0xD8, CHR 0xB3, CHR 0xD8, CHR 0xB7, CHR 0x29]
         else interpretation
            @ [CHR 0x28, CHR 0xD8, CHR 0xA7, CHR 0xD8, CHR 0xAA, CHR 0xD8, CHR 0xAC, CHR 0xD8,
             CHR 0xA7, CHR 0xD9, CHR 0x87, CHR 0x20, CHR 0xD9, CHR 0x82, CHR 0xD9, CHR 0x88,
             CHR 0xD9, CHR 0x8A, CHR 0x29])"
text \<open>
  \<open>_identify_correlation_columns\<close>. \<open>match_columns\<close> is the inner loop over the
  numeric columns for one metric, with its \<open>break\<close>; \<open>falsy\<close> is Python's \<open>not\<close>
  on an optional string.
\<close>

definition falsy :: "string option \<Rightarrow> bool" where
  "falsy s = (s = None \<or> s = Some [])"

fun match_columns ::
  "string \<Rightarrow> string list \<Rightarrow> string option \<times> string option \<Rightarrow> string option \<times> string option" where
  "match_columns metric [] (x_col, y_col) = (x_col, y_col)"
| "match_columns metric (col # cols) (x_col, y_col) =
     (if str_in (lower metric) (lower col) \<or> str_in (lower col) (lower metric)
      then if falsy x_col then match_columns metric cols (Some col, y_col)
           else if falsy y_col then (x_col, Some col)
           else match_columns metric cols (x_col, y_col)
      else match_columns metric cols (x_col, y_col))"

definition identify_correlation_columns ::
  "dataframe \<Rightarrow> string list \<Rightarrow> string list \<Rightarrow> string option \<times> string option" where
  "identify_correlation_columns df numeric_cols metrics' =
     (if length numeric_cols < 2 then (None, None)
      else
        let (x_col, y_col) =
              foldl (\<lambda>st metric. match_columns metric numeric_cols st) (None, None) metrics'
        in if falsy x_col \<or> falsy y_col
           then (Some (numeric_cols ! 0), Some (numeric_cols ! 1))
           else (x_col, y_col))"

definition interpret_correlation :: "real \<Rightarrow> string \<times> string" where
  "interpret_correlation v =
     (let abs_value = \<bar>v\<bar>;
          strength =
            (if abs_value < float_0_2 then ''very_weak''
             else if abs_value < float_0_4 then ''weak''
             else if abs_value < float_0_6 then ''moderate''
             else if abs_value < float_0_8 then ''strong''
             else ''very_strong'');
          direction = (if v \<ge> 0 then ''positive'' else ''negative'')
      in (strength, direction))"

text \<open>
  The message of the exception \<open>pandas\<close> raises when the same column was chosen twice:
  \<open>clean_df\<close> then has two columns of one name, \<open>clean_df[x_col]\<close> is a frame rather
  than a series, and \<open>DataFrame.corr\<close> takes the other frame for its \<open>method\<close>.
\<close>

definition ambiguous_truth_value :: string where
  "ambiguous_truth_value =
     ''The truth value of a DataFrame is ambiguous. '' @
     ''Use a.empty, a.bool(), a.item(), a.any() or a.all().''"

definition key_error :: "string \<Rightarrow> string" where
  "key_error col = [CHR 0x27] @ col @ [CHR 0x27]"

text \<open>
  \<open>_analyze_correlation\<close>. \<open>corr\<close> stands for \<open>Series.corr\<close> of \<open>pandas\<close>,
  applied to the two series of \<open>clean_df\<close>: the coefficient it computes in floating
  point, \<open>None\<close> when it returns \<open>NaN\<close>. It is a parameter because the library's
  arithmetic is not part of the repository. The first call of \<open>corr\<close> in the source
  (on the frame before \<open>dropna\<close>) only computes a value that the second call
  overwrites; it is left out.
\<close>

definition analyze_correlation ::
  "(real list \<Rightarrow> real list \<Rightarrow> real option) \<Rightarrow> dataframe \<Rightarrow> intent \<Rightarrow> string \<Rightarrow> finding" where
  "analyze_correlation corr df intent question =
     (let numeric_cols = select_dtypes df Number
      in if length numeric_cols < 2
         then \<lparr>has_analysis = False, analysis_type = Some ''correlation'',
               statistical_result = [], interpretation' = Some correlation_no_columns,
               visualization_type = ''scatter''\<rparr>
         else
           let (x0, y0) = identify_correlation_columns df numeric_cols (metrics intent);
               (x_col, y_col) =
                 (if falsy x0 \<or> falsy y0 then (numeric_cols ! 0, numeric_cols ! 1)
                  else (the x0, the y0))
           in case (getitem df x_col, getitem df y_col) of
                (Some xs, Some ys) \<Rightarrow>
                  let clean_df = filter (\<lambda>(x, y). \<not> isna x \<and> \<not> isna y) (zip xs ys)
                  in if length clean_df < 3
                     then \<lparr>has_analysis = False, analysis_type = Some ''correlation'',
                           statistical_result = [], interpretation' = Some correlation_no_data,
                           visualization_type = ''scatter''\<rparr>
                     else if x_col = y_col
                     then \<lparr>has_analysis = False, analysis_type = Some ''correlation'',
                           statistical_result = [],
                           interpretation' = Some (correlation_failed ambiguous_truth_value),
                           visualization_type = ''scatter''\<rparr>
                     else
                       let correlation =
                             (case corr (map (number \<circ> fst) clean_df) (map (number \<circ> snd) clean_df) of
                                None \<Rightarrow> 0
                              | Some r \<Rightarrow> r);
                           (strength, direction) = interpret_correlation correlation;
                           interpretation =
                             generate_correlation_interpretation correlation strength direction x_col y_col
                       in \<lparr>has_analysis = True, analysis_type = Some ''correlation'',
                            statistical_result =
                              [(''correlation_coefficient'', PyNum (py_round correlation 3)),
                               (''strength'', PyStr strength),
                               (''direction'', PyStr direction),
                               (''x_variable'', PyStr x_col),
                               (''y_variable'', PyStr y_col),
                               (''sample_size'', PyInt (int (length clean_df)))],
                            interpretation' = Some interpretation,
                            visualization_type = ''scatter''\<rparr>
              | (None, _) \<Rightarrow>
                  \<lparr>has_analysis = False, analysis_type = Some ''correlation'',
                   statistical_result = [],
                   interpretation' = Some (correlation_failed (key_error x_col)),
                   visualization_type = ''scatter''\<rparr>
              | (Some xs, None) \<Rightarrow>
                  \<lparr>has_analysis = False, analysis_type = Some ''correlation'',
                   statistical_result = [],
                   interpretation' = Some (correlation_failed (key_error y_col)),
                   visualization_type = ''scatter''\<rparr>)"

text \<open>
  \<open>_analyze_trend\<close>. The rows are taken in the order of the result set; the list of the
  source's \<open>datetime64\<close> columns is computed and never used, and is left out.
\<close>

definition analyze_trend :: "dataframe \<Rightarrow> intent \<Rightarrow> string \<Rightarrow> finding" where
  "analyze_trend df intent question =
     (let numeric_cols = select_dtypes df Number
      in if length numeric_cols = 0
         then \<lparr>has_analysis = False, analysis_type = Some ''trend'',
               statistical_result = [], interpretation' = Some trend_no_columns,
               visualization_type = ''line''\<rparr>
         else
           let metric_col = numeric_cols ! 0
           in case getitem df metric_col of
                None \<Rightarrow>
                  \<lparr>has_analysis = False, analysis_type = Some ''trend'',
                   statistical_result = [],
                   interpretation' = Some (trend_failed (key_error metric_col)),
                   visualization_type = ''line''\<rparr>
              | Some series \<Rightarrow>
                  let values = dropna series
                  in if length values < 2
                     then \<lparr>has_analysis = False, analysis_type = Some ''trend'',
                           statistical_result = [], interpretation' = Some trend_no_data,
                           visualization_type = ''line''\<rparr>
                     else
                       let first_half = mean (take (length values div 2) values);
                           second_half = mean (drop (length values div 2) values);
                           trend_direction =
                             (if second_half > first_half then ''increasing'' else ''decreasing'');
                           trend_strength =
                             (if first_half \<noteq> 0 then \<bar>second_half - first_half\<bar> / first_half
                              else 0);
                           interpretation =
                             generate_trend_interpretation trend_direction trend_strength metric_col
                       in \<lparr>has_analysis = True, analysis_type = Some ''trend'',
                            statistical_result =
                              [(''direction'', PyStr trend_direction),
                               (''strength'', PyNum (py_round trend_strength 3)),
                               (''metric'', PyStr metric_col),
                               (''first_half_avg'', PyNum (py_round first_half 2)),
                               (''second_half_avg'', PyNum (py_round second_half 2))],
                            interpretation' = Some interpretation,
                            visualization_type = ''line''\<rparr>)"

definition suggest_visualization :: "string \<Rightarrow> dataframe \<Rightarrow> string" where
  "suggest_visualization intent_type df =
     (let numeric_cols = select_dtypes df Number;
          text_cols = select_dtypes df Object
      in if intent_type = ''correlation'' \<and> length numeric_cols \<ge> 2 then ''scatter''
         else if intent_type = ''comparison''
         then (if text_cols \<noteq> [] \<and> numeric_cols \<noteq> [] then ''bar''
               else if numeric_cols \<noteq> [] then ''bar''
               else ''table'')
         else if intent_type = ''trend'' then ''line''
         else if intent_type = ''aggregate'' then (if numeric_cols \<noteq> [] then ''bar'' else ''table'')
         else ''table'')"

text \<open>
  \<open>StatisticalAnalysisService.analyze\<close>. \<open>DataFrame\<close> stands for the constructor
  \<open>pd.DataFrame\<close>: the frame of the rows, or \<open>Inl\<close> the exception it raises.
  \<open>corr\<close> is the \<open>Series.corr\<close> that the correlation branch calls.
  \<open>analyze_comparison\<close> and \<open>analyze_aggregate\<close> stand for the two branches whose
  results are tables of \<open>pandas\<close> (\<open>groupby\<close>, \<open>describe\<close>); the dispatch to them is
  the source's.
\<close>

definition analyze ::
  "(real list \<Rightarrow> real list \<Rightarrow> real option)
     \<Rightarrow> (dataframe \<Rightarrow> intent \<Rightarrow> string \<Rightarrow> finding) \<Rightarrow> (dataframe \<Rightarrow> intent \<Rightarrow> string \<Rightarrow> finding)
     \<Rightarrow> (row list \<Rightarrow> string + dataframe) \<Rightarrow> row list \<Rightarrow> intent \<Rightarrow> string \<Rightarrow> finding" where
  "analyze corr analyze_comparison analyze_aggregate DataFrame data intent question =
     (if data = []
      then \<lparr>has_analysis = False, analysis_type = None, statistical_result = [],
            interpretation' = None, visualization_type = ''none''\<rparr>
      else
        let intent_type = itype intent
        in case DataFrame data of
             Inl e \<Rightarrow>
               \<lparr>has_analysis = False, analysis_type = None, statistical_result = [],
                interpretation' = None, visualization_type = ''none''\<rparr>
           | Inr df \<Rightarrow>
               if intent_type = ''correlation'' then analyze_correlation corr df intent question
               else if intent_type = ''comparison'' then analyze_comparison df intent question
               else if intent_type = ''trend'' then analyze_trend df intent question
               else if intent_type = ''aggregate'' then analyze_aggregate df intent question
               else \<lparr>has_analysis = False, analysis_type = None, statistical_result = [],
                     interpretation' = None,
                     visualization_type = suggest_visualization intent_type df\<rparr>)"

section \<open>\<open>app/llm/chains.py\<close>: SQL generation\<close>

text \<open>
  \<open>re.sub(pattern, repl, text)\<close> for a pattern that matches no empty string: every
  match, found from left to right, is replaced by \<open>repl\<close>. (A match of length 0 cannot
  occur with the patterns below; the model steps over it.)
\<close>

function re_sub_from :: "flags \<Rightarrow> pattern \<Rightarrow> string \<Rightarrow> char option \<Rightarrow> string \<Rightarrow> string" where
  "re_sub_from f p repl prev [] = []"
| "re_sub_from f p repl prev (c # cs) =
     (case match_alts f p prev (c # cs) of
        Some (Suc n) \<Rightarrow> repl @ re_sub_from f p repl (Some ((c # cs) ! n)) (drop n cs)
      | Some 0 \<Rightarrow> c # re_sub_from f p repl (Some c) cs
      | None \<Rightarrow> c # re_sub_from f p repl (Some c) cs)"
  by pat_completeness auto
termination
  by (relation "measure (\<lambda>(f, p, repl, prev, s). length s)") auto

definition re_sub :: "pattern \<Rightarrow> string \<Rightarrow> string \<Rightarrow> flags \<Rightarrow> string" where
  "re_sub p repl s f = re_sub_from f p repl None s"

text \<open>
  The three patterns of \<open>_extract_sql\<close>: a fenced block
  \<^verbatim>\<open>```.*?```\<close>, the statement \<^verbatim>\<open>(SELECT\s.+?\sLIMIT\s+\d+)\<close> and a run of
  whitespace \<^verbatim>\<open>\s+\<close>; and the pattern \<^verbatim>\<open>FROM\s+LIMIT\<close> of the completeness check.
\<close>

definition fenced_block :: pattern where
  "fenced_block =
     [lit [CHR 0x60, CHR 0x60, CHR 0x60] @ [LazyZeroOrMore AnyChar] @ lit [CHR 0x60, CHR 0x60, CHR 0x60]]"

definition select_to_limit :: pattern where
  "select_to_limit =
     [lit ''SELECT'' @ [Once Space, LazyOneOrMore AnyChar, Once Space] @ lit ''LIMIT''
        @ [OneOrMore Space, OneOrMore Digit]]"

definition whitespace_run :: pattern where
  "whitespace_run = [[OneOrMore Space]]"

definition from_limit :: pattern where
  "from_limit = [lit ''FROM'' @ [OneOrMore Space] @ lit ''LIMIT'']"

definition extract_sql :: "string \<Rightarrow> string option" where
  "extract_sql text0 =
     (let text1 = re_sub fenced_block [] text0 \<lparr>IGNORECASE = False, DOTALL = True\<rparr>
      in case re_search select_to_limit text1 \<lparr>IGNORECASE = True, DOTALL = True\<rparr> of
           Some (start, n) \<Rightarrow>
             Some (strip (re_sub whitespace_run '' '' (take n (drop start text1))
                            \<lparr>IGNORECASE = False, DOTALL = False\<rparr>))
         | None \<Rightarrow> None)"

text \<open>
  \<open>_validate_sql_completeness\<close>: the error message, \<open>None\<close> when the statement is
  complete. The source's block on the text after \<open>LIMIT\<close> only executes \<open>pass\<close> and
  is left out. The second test of \<open>after_from\<close> repeats the first and is never reached;
  it is kept as the source has it.
\<close>

definition validate_sql_completeness :: "string \<Rightarrow> string option" where
  "validate_sql_completeness sql =
     (let sql_upper = strip (upper sql)
      in if \<not> startswith sql_upper ''SELECT'' then Some ''Query must start with SELECT''
         else if \<not> str_in ''FROM'' sql_upper then Some ''Query missing FROM clause''
         else
           let after_from =
                 (case str_find sql_upper ''FROM'' of
                    Some from_index \<Rightarrow> Some (strip (drop (from_index + 4) sql_upper))
                  | None \<Rightarrow> None)
           in if (case after_from of
                    Some a \<Rightarrow> a = [] \<or> startswith a ''LIMIT''
                  | None \<Rightarrow> False)
              then Some ''Query missing table name after FROM clause''
              else if (case after_from of Some a \<Rightarrow> startswith a ''LIMIT'' | None \<Rightarrow> False)
              then Some ''Query has LIMIT directly after FROM - missing table name''
              else if re_search from_limit sql_upper \<lparr>IGNORECASE = False, DOTALL = False\<rparr> \<noteq> None
              then Some ''Query has LIMIT immediately after FROM - missing table name or JOIN clause''
              else None)"

text \<open>
  \<open>SQLGenerationChain.generate\<close>. The language model is a collaborator:
  \<open>llm schema_context question\<close> is the content of its response, or \<open>Inl\<close> the message
  of the exception the call raises. The result is \<open>(success, sql_query, error_message)\<close>.
\<close>

definition generate ::
  "(string \<Rightarrow> string \<Rightarrow> string + string) \<Rightarrow> string \<Rightarrow> string
     \<Rightarrow> bool \<times> string option \<times> string option" where
  "generate llm question schema_context =
     (case llm schema_context question of
        Inl error_msg \<Rightarrow> (False, None, Some error_msg)
      | Inr content \<Rightarrow>
          (case extract_sql content of
             None \<Rightarrow> (False, None, Some ''Failed to extract SQL from LLM response'')
           | Some sql \<Rightarrow>
               if sql = [] then (False, None, Some ''Failed to extract SQL from LLM response'')
               else (case validate_sql_completeness sql of
                       Some validation_error \<Rightarrow>
                         (False, None, Some (''Generated SQL is incomplete: '' @ validation_error))
                     | None \<Rightarrow> (True, Some sql, None))))"

section \<open>\<open>app/services/chat_service.py\<close>: the SQL steps of \<open>handle_question\<close>\<close>

text \<open>
  Steps 5 and 6 of \<open>ChatService.handle_question\<close>: SQL generation, then execution. The
  steps before them produce \<open>question_to_use\<close> and the schema context and make no call
  to the validator or the database for the candidate; the steps after them consume the
  rows. A failed step ends the request with the outcome \<open>Failed\<close>; \<open>Executed\<close>
  carries the SQL and the rows on to the later steps. \<open>professional\<close> stands for
  \<open>get_professional_error_message\<close>, applied to the question and the error type. The
  second component lists the calls made to the validator and the database.
\<close>

record outcome =
  success :: bool
  answer :: "string option"
  sql_query :: "string option"
  data :: "row list option"
  error :: "string option"

datatype step = Failed outcome | Executed string "row list"

definition sql_steps ::
  "settings \<Rightarrow> (string \<Rightarrow> string \<Rightarrow> string + string) \<Rightarrow> (string \<Rightarrow> string + token list list)
     \<Rightarrow> (string \<Rightarrow> string + row list) \<Rightarrow> (string \<Rightarrow> string \<Rightarrow> string)
     \<Rightarrow> string \<Rightarrow> string \<Rightarrow> string \<Rightarrow> step \<times> call list" where
  "sql_steps cfg llm parse db professional question question_to_use enhanced_schema_context =
     (case generate llm question_to_use enhanced_schema_context of
        (False, _, sql_error) \<Rightarrow>
          (Failed \<lparr>success = False, answer = Some (professional question ''sql_generation''),
                   sql_query = None, data = None,
                   error = Some (professional question ''sql_generation'')\<rparr>, [])
      | (True, generated, _) \<Rightarrow>
          let sql = (case generated of None \<Rightarrow> [] | Some q \<Rightarrow> q) in
          (case execute cfg parse db sql of
             ((False, _, exec_error), calls) \<Rightarrow>
               let error_type =
                     (if str_in ''incomplete'' (lower (case exec_error of None \<Rightarrow> ''None'' | Some e \<Rightarrow> e))
                      then ''incomplete_query'' else ''sql_execution'')
               in (Failed \<lparr>success = False, answer = Some (professional question error_type),
                           sql_query = generated, data = None,
                           error = Some (professional question error_type)\<rparr>, calls)
           | ((True, rows, _), calls) \<Rightarrow>
               (Executed sql (case rows of None \<Rightarrow> [] | Some d \<Rightarrow> d), calls)))"

section \<open>Notions of the specification and example inputs\<close>

text \<open>
  The word \<open>w\<close> occurs in \<open>s\<close> in some letter case: the lower-cased word is a
  substring of the lower-cased string.
\<close>

definition occurs_ci :: "string \<Rightarrow> string \<Rightarrow> bool" where
  "occurs_ci w s = str_in (lower w) (lower s)"

text \<open>
  The string ends with a numeric \<open>LIMIT\<close> clause: the word \<open>LIMIT\<close> in any letter
  case, whitespace, and digits up to the end of the string.
\<close>

definition ends_with_numeric_limit :: "string \<Rightarrow> bool" where
  "ends_with_numeric_limit sql =
     (let r1 = dropWhile isdigit (rev sql); r2 = dropWhile isspace r1
      in takeWhile isdigit (rev sql) \<noteq> [] \<and> takeWhile isspace r1 \<noteq> [] \<and>
         upper (rev (take 5 r2)) = ''LIMIT'')"

text \<open>
  A statement has a \<open>LIMIT\<close> clause when one of its tokens, at any depth, is the keyword
  \<open>LIMIT\<close>; it holds a block-listed keyword when one of its tokens, at any depth, is a
  keyword token (of type \<open>Keyword\<close> or one of its sub-types) whose text is on the
  block-list.
\<close>

definition limit_clause_present :: "token list \<Rightarrow> bool" where
  "limit_clause_present statement =
     list_ex (\<lambda>t. ttype t = Some Keyword \<and> upper (tvalue t) = ''LIMIT'')
       (concat (map flatten statement))"

definition blocked_keyword_present :: "token list \<Rightarrow> bool" where
  "blocked_keyword_present statement =
     list_ex (\<lambda>t. (case ttype t of None \<Rightarrow> False | Some ty \<Rightarrow> take 1 ty = Keyword) \<and>
                 strip (upper (tvalue t)) \<in> set blocked_keywords)
       (concat (map flatten statement))"

text \<open>
  Two statements and the token trees \<open>sqlparse\<close> builds for them. In the first, a
  PostgreSQL data-modifying common table expression, the parenthesised \<open>DELETE\<close> is
  grouped under the identifier \<open>d AS (...)\<close>, so that the top-level tokens are
  \<open>WITH\<close>, the identifier, \<open>SELECT\<close>, \<open>*\<close>, \<open>FROM\<close> and \<open>d\<close>. The second
  selects a column whose name contains the letters \<open>limit\<close>.
\<close>

definition sp :: token where
  "sp = Leaf Whitespace '' ''"

definition cte_delete_sql :: string where
  "cte_delete_sql = ''WITH d AS (DELETE FROM film RETURNING *) SELECT * FROM d''"

definition cte_delete_parsed :: "token list list" where
  "cte_delete_parsed =
     [[Leaf CTE ''WITH'', sp,
       Group ''Identifier''
         [Leaf Name ''d'', sp, Leaf Keyword ''AS'', sp,
          Group ''Parenthesis''
            [Leaf Punctuation ''('', Leaf DML ''DELETE'', sp, Leaf Keyword ''FROM'', sp,
             Group ''Identifier'' [Leaf Name ''film''], sp, Leaf Keyword ''RETURNING'', sp,
             Leaf Wildcard ''*'', Leaf Punctuation '')'']],
       sp, Leaf DML ''SELECT'', sp, Leaf Wildcard ''*'', sp, Leaf Keyword ''FROM'', sp,
       Group ''Identifier'' [Leaf Name ''d'']]]"

definition credit_limit_sql :: string where
  "credit_limit_sql = ''SELECT credit_limit FROM accounts;''"

definition credit_limit_parsed :: "token list list" where
  "credit_limit_parsed =
     [[Leaf DML ''SELECT'', sp, Group ''Identifier'' [Leaf Name ''credit_limit''], sp,
       Leaf Keyword ''FROM'', sp, Group ''Identifier'' [Leaf Name ''accounts''],
       Leaf Punctuation '';'']]"

text \<open>
  A result set with the single numeric column \<open>revenue\<close>, the frame \<open>pandas\<close> builds
  from it, and intents of the types \<open>trend\<close> and \<open>correlation\<close>.
\<close>

definition revenue_rows :: "real list \<Rightarrow> row list" where
  "revenue_rows vs = map (\<lambda>v. [(''revenue'', Num v)]) vs"

definition revenue_frame :: "real list \<Rightarrow> dataframe" where
  "revenue_frame vs = [\<lparr>name = ''revenue'', dtype = Number, cells = map Num vs\<rparr>]"

definition trend_intent :: intent where
  "trend_intent =
     \<lparr>itype = ''trend'', entities = {}, metrics = [''revenue''], confidence = 7 / 10,
      analysis_required = True, intent_analysis_type = Some ''statistical''\<rparr>"

definition not_analysed :: "dataframe \<Rightarrow> intent \<Rightarrow> string \<Rightarrow> finding" where
  "not_analysed df intent question =
     \<lparr>has_analysis = False, analysis_type = None, statistical_result = [],
      interpretation' = None, visualization_type = ''none''\<rparr>"

text \<open>A language model that answers with a statement whose table name is missing.\<close>

definition llm_without_table :: "string \<Rightarrow> string \<Rightarrow> string + string" where
  "llm_without_table schema_context question = Inr ''Here is the query: SELECT *  FROM LIMIT 10''"




text \<open>
  Pearson's coefficient of two series of equal length in exact arithmetic, \<open>None\<close> when
  a series has no variance: the number that \<open>Series.corr\<close> approximates in floating
  point. It serves as an example of a \<open>corr\<close>; on the series \<open>[1, 2, 3]\<close> and
  \<open>[2, 4, 6]\<close> every intermediate value is a small integer and the floating-point
  computation gives the same 1.
\<close>

definition exact_pearson :: "real list \<Rightarrow> real list \<Rightarrow> real option" where
  "exact_pearson xs ys =
     (let mx = mean xs; my = mean ys;
          sxy = sum_list (map2 (\<lambda>x y. (x - mx) * (y - my)) xs ys);
          sxx = sum_list (map (\<lambda>x. (x - mx) ^ 2) xs);
          syy = sum_list (map (\<lambda>y. (y - my) ^ 2) ys)
      in if sxx = 0 \<or> syy = 0 then None else Some (sxy / (sqrt sxx * sqrt syy)))"

chapter \<open>Properties\<close>

section \<open>Substrings and stripping\<close>

lemma startswith_iff: "startswith s p \<longleftrightarrow> (\<exists>post. s = p @ post)"
  unfolding startswith_def by (metis append_eq_conv_conj append_take_drop_id)

lemma str_in_Nil: "str_in sub [] \<longleftrightarrow> sub = []"
  by (simp add: str_in_def)

lemma str_in_Cons: "str_in sub (c # cs) \<longleftrightarrow> startswith (c # cs) sub \<or> str_in sub cs"
  by (simp add: str_in_def)

lemma str_in_iff: "str_in sub s \<longleftrightarrow> (\<exists>pre post. s = pre @ sub @ post)"
proof (induction s)
  case Nil
  show ?case by (simp add: str_in_Nil)
next
  case (Cons c cs)
  show ?case
  proof
    assume "str_in sub (c # cs)"
    then consider "startswith (c # cs) sub" | "str_in sub cs"
      by (auto simp: str_in_Cons)
    then show "\<exists>pre post. c # cs = pre @ sub @ post"
    proof cases
      case 1
      then obtain post where "c # cs = sub @ post" by (auto simp: startswith_iff)
      then have "c # cs = [] @ sub @ post" by simp
      then show ?thesis by blast
    next
      case 2
      then obtain pre post where "cs = pre @ sub @ post" using Cons.IH by blast
      then have "c # cs = (c # pre) @ sub @ post" by simp
      then show ?thesis by blast
    qed
  next
    assume "\<exists>pre post. c # cs = pre @ sub @ post"
    then obtain pre post where eq: "c # cs = pre @ sub @ post" by blast
    show "str_in sub (c # cs)"
    proof (cases pre)
      case Nil
      with eq have "startswith (c # cs) sub" by (auto simp: startswith_iff)
      then show ?thesis by (simp add: str_in_Cons)
    next
      case (Cons a pre')
      with eq have "cs = pre' @ sub @ post" by simp
      then have "str_in sub cs" using Cons.IH by blast
      then show ?thesis by (simp add: str_in_Cons)
    qed
  qed
qed

lemma str_in_rev: "str_in (rev sub) (rev s) \<longleftrightarrow> str_in sub s"
proof -
  have "(\<exists>pre post. rev s = pre @ rev sub @ post) \<longleftrightarrow> (\<exists>pre post. s = pre @ sub @ post)"
  proof
    assume "\<exists>pre post. rev s = pre @ rev sub @ post"
    then obtain pre post where "rev s = pre @ rev sub @ post" by blast
    then have "s = rev post @ sub @ rev pre" by (metis append.assoc rev_append rev_rev_ident)
    then show "\<exists>pre post. s = pre @ sub @ post" by blast
  next
    assume "\<exists>pre post. s = pre @ sub @ post"
    then obtain pre post where "s = pre @ sub @ post" by blast
    then have "rev s = rev post @ rev sub @ rev pre" by simp
    then show "\<exists>pre post. rev s = pre @ rev sub @ post" by blast
  qed
  then show ?thesis by (simp add: str_in_iff)
qed

lemma str_in_map: "str_in sub s \<Longrightarrow> str_in (map f sub) (map f s)"
  unfolding str_in_iff by (metis map_append)

text \<open>Dropping characters from an end keeps an occurrence that they cannot be part of.\<close>

lemma str_in_dropWhile:
  assumes "sub \<noteq> []" and "\<not> P (hd sub)"
  shows "str_in sub (dropWhile P s) \<longleftrightarrow> str_in sub s"
proof
  assume "str_in sub (dropWhile P s)"
  then obtain pre post where "dropWhile P s = pre @ sub @ post" by (auto simp: str_in_iff)
  then have "s = (takeWhile P s @ pre) @ sub @ post"
    by (metis append.assoc takeWhile_dropWhile_id)
  then show "str_in sub s" unfolding str_in_iff by blast
next
  assume "str_in sub s"
  then obtain pre post where eq: "s = pre @ sub @ post" by (auto simp: str_in_iff)
  show "str_in sub (dropWhile P s)"
  proof (cases "\<forall>x\<in>set pre. P x")
    case True
    then have "dropWhile P s = dropWhile P (sub @ post)" using eq by simp
    also have "\<dots> = sub @ post" using assms by (cases sub) auto
    finally have "dropWhile P s = [] @ sub @ post" by simp
    then show ?thesis unfolding str_in_iff by blast
  next
    case False
    then have "dropWhile P s = dropWhile P pre @ sub @ post"
      using eq by (auto simp: dropWhile_append1)
    then show ?thesis unfolding str_in_iff by blast
  qed
qed

lemma str_in_rev_dropWhile_rev:
  assumes "sub \<noteq> []" and "\<not> P (last sub)"
  shows "str_in sub (rev (dropWhile P (rev s))) \<longleftrightarrow> str_in sub s"
proof -
  have "str_in sub (rev (dropWhile P (rev s))) \<longleftrightarrow> str_in (rev sub) (dropWhile P (rev s))"
    using str_in_rev[of sub "rev (dropWhile P (rev s))"] by simp
  also have "\<dots> \<longleftrightarrow> str_in (rev sub) (rev s)"
    using assms by (intro str_in_dropWhile) (auto simp: hd_rev)
  also have "\<dots> \<longleftrightarrow> str_in sub s" by (rule str_in_rev)
  finally show ?thesis .
qed

lemma rev_dropWhile_rev_id: "s \<noteq> [] \<Longrightarrow> \<not> P (last s) \<Longrightarrow> rev (dropWhile P (rev s)) = s"
  by (cases s rule: rev_cases) auto

lemma dropWhile_keeps_last:
  "s \<noteq> [] \<Longrightarrow> \<not> P (last s) \<Longrightarrow> dropWhile P s \<noteq> [] \<and> last (dropWhile P s) = last s"
  by (induction s) auto

lemma isspace_upper_char: "isspace (upper_char c) = isspace c"
  by (auto simp: isspace_def whitespace_def upper_char_def ascii_lowercase_def ascii_uppercase_def)

lemma semicolon_upper_char: "(upper_char c = CHR '';'') = (c = CHR '';'')"
  by (auto simp: upper_char_def ascii_lowercase_def ascii_uppercase_def)

lemma upper_lower_char: "upper_char (lower_char c) = upper_char c"
  by (auto simp: upper_char_def lower_char_def ascii_lowercase_def ascii_uppercase_def)

lemma upper_lower: "upper (lower s) = upper s"
  by (simp add: lower_def upper_def upper_lower_char)

lemma upper_lstrip: "upper (lstrip s) = lstrip (upper s)"
  by (simp add: upper_def lstrip_def dropWhile_map comp_def isspace_upper_char)

lemma upper_rstrip: "upper (rstrip s) = rstrip (upper s)"
  by (simp add: upper_def rstrip_def dropWhile_map comp_def isspace_upper_char rev_map)

lemma upper_strip: "upper (strip s) = strip (upper s)"
  by (simp add: strip_def upper_lstrip upper_rstrip)

lemma upper_rstrip_semicolon: "upper (rstrip_chars s '';'') = rstrip_chars (upper s) '';''"
  by (simp add: upper_def rstrip_chars_def dropWhile_map comp_def semicolon_upper_char rev_map)

lemma isdigit_not_space: "isdigit c \<Longrightarrow> \<not> isspace c \<and> c \<noteq> CHR '';''"
  by (auto simp: isdigit_def isspace_def whitespace_def)

section \<open>The validator's test for a \<open>LIMIT\<close>\<close>

lemma str_in_LIMIT_strip: "str_in ''LIMIT'' (strip s) \<longleftrightarrow> str_in ''LIMIT'' s"
proof -
  have "str_in ''LIMIT'' (strip s) \<longleftrightarrow> str_in ''LIMIT'' (lstrip s)"
    unfolding strip_def rstrip_def
    by (rule str_in_rev_dropWhile_rev) (simp_all add: isspace_def whitespace_def)
  also have "\<dots> \<longleftrightarrow> str_in ''LIMIT'' s"
    unfolding lstrip_def
    by (rule str_in_dropWhile) (simp_all add: isspace_def whitespace_def)
  finally show ?thesis .
qed

lemma str_in_LIMIT_rstrip_semicolon:
  "str_in ''LIMIT'' (rstrip_chars s '';'') \<longleftrightarrow> str_in ''LIMIT'' s"
  unfolding rstrip_chars_def by (rule str_in_rev_dropWhile_rev) simp_all

lemma has_limit_stripped: "has_limit (rstrip_chars (strip sql) '';'') = has_limit sql"
  by (simp add: has_limit_def upper_rstrip_semicolon upper_strip
      str_in_LIMIT_rstrip_semicolon str_in_LIMIT_strip)

text \<open>
  An occurrence of the letters \<open>limit\<close> in any letter case is an occurrence of
  \<open>LIMIT\<close> in the upper-cased string.
\<close>

lemma has_limit_if_occurs:
  assumes "occurs_ci ''limit'' sql"
  shows "has_limit sql"
proof -
  have "str_in (upper (lower ''limit'')) (upper (lower sql))"
    using assms unfolding occurs_ci_def upper_def by (rule str_in_map)
  moreover have "upper (lower ''limit'') = ''LIMIT''" by code_simp
  ultimately show ?thesis by (simp add: has_limit_def upper_lower)
qed

lemma validate_no_warning:
  "has_limit sql \<Longrightarrow> warnings (snd (validate cfg parsed sql)) = []"
  by (auto simp: validate_def warnings_def split: sum.splits list.splits option.splits)

lemma sanitize_present: "has_limit sql \<Longrightarrow> sanitize cfg sql = rstrip_chars (strip sql) '';''"
  by (simp add: sanitize_def has_limit_stripped)

lemma stripped_when_last_kept:
  assumes "s \<noteq> []" and "\<not> isspace (last s)" and "last s \<noteq> CHR '';''"
  shows "rstrip_chars (strip s) '';'' = lstrip s"
proof -
  have l: "lstrip s \<noteq> [] \<and> last (lstrip s) = last s"
    unfolding lstrip_def using assms(1,2) by (rule dropWhile_keeps_last)
  then have "strip s = lstrip s"
    unfolding strip_def rstrip_def using assms(2) by (intro rev_dropWhile_rev_id) auto
  moreover have "rstrip_chars (lstrip s) '';'' = lstrip s"
    unfolding rstrip_chars_def using l assms(3) by (intro rev_dropWhile_rev_id) auto
  ultimately show ?thesis by simp
qed

lemma ends_with_numeric_limitD:
  assumes "ends_with_numeric_limit sql"
  shows "\<exists>pre w sp ds. sql = pre @ w @ sp @ ds \<and> upper w = ''LIMIT'' \<and> ds \<noteq> []
           \<and> (\<forall>c\<in>set ds. isdigit c)"
proof -
  define ds where "ds = rev (takeWhile isdigit (rev sql))"
  define r1 where "r1 = dropWhile isdigit (rev sql)"
  define sp where "sp = rev (takeWhile isspace r1)"
  define r2 where "r2 = dropWhile isspace r1"
  define w where "w = rev (take 5 r2)"
  have "rev sql = rev ds @ r1" by (simp add: ds_def r1_def)
  moreover have "r1 = rev sp @ r2" by (simp add: sp_def r2_def)
  moreover have "r2 = rev w @ drop 5 r2" by (simp add: w_def)
  ultimately have "rev sql = rev ds @ rev sp @ rev w @ drop 5 r2" by simp
  then have "rev (rev sql) = rev (rev ds @ rev sp @ rev w @ drop 5 r2)" by simp
  then have "sql = rev (drop 5 r2) @ w @ sp @ ds" by simp
  moreover have "upper w = ''LIMIT''"
    using assms by (simp add: ends_with_numeric_limit_def Let_def w_def r2_def r1_def)
  moreover have "ds \<noteq> []"
    using assms by (simp add: ends_with_numeric_limit_def Let_def ds_def)
  moreover have "\<forall>c\<in>set ds. isdigit c" unfolding ds_def by (auto dest: set_takeWhileD)
  ultimately show ?thesis by blast
qed

section \<open>Claims about the security validator\<close>

text \<open>
  C1 (the code departs from it). The claim: every SQL string that holds a block-listed
  keyword as a token, at any depth, is refused by \<open>validate\<close>. The loop of \<open>validate\<close>
  visits \<open>statement.tokens\<close>, the top-level tokens only, and compares the token type
  with \<open>Keyword\<close> by identity. For the statement
  \<^verbatim>\<open>WITH d AS (DELETE FROM film RETURNING *) SELECT * FROM d\<close> the tokens of the tree
  spell the statement, a \<open>DELETE\<close> keyword token stands inside the grouped identifier,
  and \<open>validate\<close> returns \<open>(True, None)\<close>.
\<close>

theorem validate_accepts_nested_delete:
  "concat (map tvalue (hd cte_delete_parsed)) = cte_delete_sql \<and>
   blocked_keyword_present (hd cte_delete_parsed) \<and>
   fst (validate default_settings (Inr cte_delete_parsed) cte_delete_sql) = (True, None)"
  by code_simp

text \<open>
  C2 (the code departs from it). The claim: a non-empty string that has passed
  \<open>validate\<close> and has no \<open>LIMIT\<close> clause gets \<open>LIMIT <SQL_MAX_ROWS>\<close> appended by
  \<open>sanitize\<close>; the documentation of \<open>sanitize\<close> says the same ("add LIMIT if
  missing"). \<open>sanitize\<close> asks \<open>_has_limit\<close>, which looks for the letters \<open>LIMIT\<close>
  in the upper-cased string. For \<^verbatim>\<open>SELECT credit_limit FROM accounts;\<close> the string
  is not empty, \<open>validate\<close> accepts it, none of its tokens is the keyword \<open>LIMIT\<close>,
  and \<open>sanitize\<close> returns it without the semicolon and without a \<open>LIMIT\<close>.
\<close>

theorem sanitize_counterexample:
  "credit_limit_sql \<noteq> [] \<and>
   concat (map tvalue (hd credit_limit_parsed)) = credit_limit_sql \<and>
   fst (validate default_settings (Inr credit_limit_parsed) credit_limit_sql) = (True, None) \<and>
   \<not> limit_clause_present (hd credit_limit_parsed) \<and>
   sanitize default_settings credit_limit_sql = ''SELECT credit_limit FROM accounts'' \<and>
   \<not> endswith (sanitize default_settings credit_limit_sql) '' LIMIT 1000''"
  by code_simp

text \<open>
  C9. For every SQL string that ends with a numeric \<open>LIMIT\<close> clause, \<open>sanitize\<close> is
  idempotent: \<open>sanitize (sanitize sql) = sanitize sql\<close>.
\<close>

theorem sanitize_idempotent:
  assumes "ends_with_numeric_limit sql"
  shows "sanitize cfg (sanitize cfg sql) = sanitize cfg sql"
proof -
  obtain pre w sp ds where eq: "sql = pre @ w @ sp @ ds" and w: "upper w = ''LIMIT''"
    and ds: "ds \<noteq> []" "\<forall>c\<in>set ds. isdigit c"
    using ends_with_numeric_limitD[OF assms] by blast
  have ne: "sql \<noteq> []" using eq ds by simp
  have "last sql = last ds" using eq ds by simp
  then have "isdigit (last sql)" using ds by simp
  then have last: "\<not> isspace (last sql)" "last sql \<noteq> CHR '';''"
    using isdigit_not_space by blast+
  have "upper sql = upper pre @ ''LIMIT'' @ upper (sp @ ds)"
    using eq w by (simp add: upper_def)
  then have lim: "has_limit sql" unfolding has_limit_def str_in_iff by blast
  have first: "sanitize cfg sql = lstrip sql"
    using lim ne last by (simp add: sanitize_present stripped_when_last_kept)
  have l: "lstrip sql \<noteq> [] \<and> last (lstrip sql) = last sql"
    unfolding lstrip_def using ne last(1) by (rule dropWhile_keeps_last)
  have "has_limit (lstrip sql)"
    using lim first has_limit_stripped[of sql] sanitize_present[OF lim, of cfg] by simp
  then have "sanitize cfg (lstrip sql) = rstrip_chars (strip (lstrip sql)) '';''"
    by (rule sanitize_present)
  also have "\<dots> = lstrip (lstrip sql)"
    using l last by (intro stripped_when_last_kept) auto
  also have "\<dots> = lstrip sql" by (simp add: lstrip_def)
  finally show ?thesis using first by simp
qed

theorem sanitize_idempotent_witness:
  "ends_with_numeric_limit ''  select * from film limit 10'' \<and>
   sanitize default_settings ''  select * from film limit 10'' = ''select * from film limit 10'' \<and>
   sanitize default_settings (sanitize default_settings ''  select * from film limit 10'')
     = sanitize default_settings ''  select * from film limit 10''"
proof -
  have h: "ends_with_numeric_limit ''  select * from film limit 10''" by code_simp
  have v: "sanitize default_settings ''  select * from film limit 10''
             = ''select * from film limit 10''"
    by code_simp
  show ?thesis using h v sanitize_idempotent[OF h, of default_settings] by simp
qed

text \<open>
  C10. For every SQL string in which the letters \<open>limit\<close> occur anywhere, in any
  letter case, also inside an identifier or a literal, \<open>validate\<close> logs no warning
  about a missing \<open>LIMIT\<close> and \<open>sanitize\<close> appends nothing: it returns the string
  stripped of surrounding whitespace and trailing semicolons, and when \<open>validate\<close>
  accepts the string, that is the SQL the executor sends to the database. The witness is
  the query on the column \<open>credit_limit\<close>, which \<open>validate\<close> accepts without a
  warning and which reaches the database without a row bound.
\<close>

theorem limit_presence_is_substring_test:
  "occurs_ci ''limit'' sql \<longrightarrow>
     warnings (snd (validate cfg (parse (strip sql)) sql)) = [] \<and>
     sanitize cfg sql = rstrip_chars (strip sql) '';'' \<and>
     (fst (fst (validate cfg (parse (strip sql)) sql)) \<longrightarrow>
        snd (execute cfg parse db sql)
          = [ValidatorCalled sql, DatabaseCalled (rstrip_chars (strip sql) '';'')])"
proof
  assume "occurs_ci ''limit'' sql"
  then have lim: "has_limit sql" by (rule has_limit_if_occurs)
  have sent: "snd (execute cfg parse db sql)
                = [ValidatorCalled sql, DatabaseCalled (sanitize cfg sql)]"
    if "fst (fst (validate cfg (parse (strip sql)) sql))"
    using that by (cases "fst (validate cfg (parse (strip sql)) sql)")
      (auto simp: execute_def Let_def split: sum.splits)
  show "warnings (snd (validate cfg (parse (strip sql)) sql)) = [] \<and>
        sanitize cfg sql = rstrip_chars (strip sql) '';'' \<and>
        (fst (fst (validate cfg (parse (strip sql)) sql)) \<longrightarrow>
           snd (execute cfg parse db sql)
             = [ValidatorCalled sql, DatabaseCalled (rstrip_chars (strip sql) '';'')])"
    using validate_no_warning[OF lim, of cfg "parse (strip sql)"] sanitize_present[OF lim, of cfg]
      sent
    by simp
qed

theorem limit_presence_is_substring_test_witness:
  "occurs_ci ''limit'' credit_limit_sql \<and>
   validate default_settings (Inr credit_limit_parsed) credit_limit_sql = ((True, None), []) \<and>
   sanitize default_settings credit_limit_sql = ''SELECT credit_limit FROM accounts'' \<and>
   snd (execute default_settings (\<lambda>sql. Inr credit_limit_parsed) (\<lambda>sql. Inr []) credit_limit_sql)
     = [ValidatorCalled ''SELECT credit_limit FROM accounts;'',
        DatabaseCalled ''SELECT credit_limit FROM accounts'']"
proof -
  have a: "occurs_ci ''limit'' credit_limit_sql" by code_simp
  have b: "validate default_settings (Inr credit_limit_parsed) credit_limit_sql = ((True, None), [])"
    by code_simp
  have c: "rstrip_chars (strip credit_limit_sql) '';'' = ''SELECT credit_limit FROM accounts''"
    by code_simp
  have d: "credit_limit_sql = ''SELECT credit_limit FROM accounts;''"
    by (simp add: credit_limit_sql_def)
  show ?thesis
    using a b c d
      limit_presence_is_substring_test[of credit_limit_sql default_settings
        "\<lambda>sql. Inr credit_limit_parsed" "\<lambda>sql. Inr []"]
    by simp
qed

section \<open>Claims about the intent detector\<close>

lemma count_matches_pos: "0 < count_matches ps q \<Longrightarrow> list_ex (\<lambda>p. matches p q) ps"
  unfolding count_matches_def list_ex_iff by (metis filter_False length_greater_0_conv)

lemma detect_intent_type_cases:
  "detect_intent_type q
     \<in> {''correlation'', ''trend'', ''comparison'', ''aggregate'', ''list'', ''unknown''}"
  by (simp add: detect_intent_type_def)

text \<open>
  C4. For every question whose lower-cased text matches at least two of the correlation
  patterns and at least two of the aggregate patterns, \<open>detect\<close> returns the type
  \<open>correlation\<close>, which is tested first, with confidence \<open>0.9\<close>.
\<close>

theorem correlation_precedence:
  assumes "2 \<le> count_matches CORRELATION_PATTERNS (lower question)"
    and "2 \<le> count_matches AGGREGATE_PATTERNS (lower question)"
  shows "itype (detect question) = ''correlation'' \<and> confidence (detect question) = 9 / 10"
proof -
  have "list_ex (\<lambda>p. matches p (lower question)) CORRELATION_PATTERNS"
    using assms(1) by (intro count_matches_pos) simp
  then have t: "detect_intent_type (lower question) = ''correlation''"
    by (simp add: detect_intent_type_def)
  have "calculate_confidence ''correlation'' (lower question) = 9 / 10"
    using assms(1) by (simp add: calculate_confidence_def)
  with t show ?thesis by (simp add: detect_def Let_def)
qed

theorem correlation_precedence_witness:
  "2 \<le> count_matches CORRELATION_PATTERNS (lower ''Is the top count related to impact?'') \<and>
   2 \<le> count_matches AGGREGATE_PATTERNS (lower ''Is the top count related to impact?'') \<and>
   itype (detect ''Is the top count related to impact?'') = ''correlation'' \<and>
   confidence (detect ''Is the top count related to impact?'') = 9 / 10"
proof -
  have a: "2 \<le> count_matches CORRELATION_PATTERNS (lower ''Is the top count related to impact?'')"
    by code_simp
  have b: "2 \<le> count_matches AGGREGATE_PATTERNS (lower ''Is the top count related to impact?'')"
    by code_simp
  show ?thesis using a b correlation_precedence[OF a b] by simp
qed

text \<open>
  C8. For every question, the intent \<open>detect\<close> returns has \<open>analysis_required\<close> true
  exactly when its type is one of correlation, comparison, trend and aggregate, and false
  exactly when its type is list or unknown.
\<close>

theorem analysis_required_invariant:
  "analysis_required (detect question) =
     (itype (detect question) \<in> {''correlation'', ''comparison'', ''trend'', ''aggregate''}) \<and>
   (\<not> analysis_required (detect question)) =
     (itype (detect question) \<in> {''list'', ''unknown''})"
  using detect_intent_type_cases[of "lower question"]
  by (auto simp: detect_def Let_def)

section \<open>Claims about the statistical analysis engine\<close>

text \<open>
  C7. For every intent and every question, \<open>analyze\<close> on an empty result set returns
  \<open>has_analysis = False\<close> and \<open>visualization_type = "none"\<close>, whatever the frame
  constructor, \<open>Series.corr\<close> and the other branches would do.
\<close>

theorem analyze_empty:
  "has_analysis (analyze corr analyze_comparison analyze_aggregate DataFrame [] intent question)
     = False \<and>
   visualization_type
       (analyze corr analyze_comparison analyze_aggregate DataFrame [] intent question)
     = ''none''"
  by (simp add: analyze_def)

subsection \<open>Trend\<close>

lemma dropna_Num: "dropna (map Num vs) = vs"
  by (induction vs) (simp_all add: dropna_def)

lemma analyze_trend_direction:
  assumes "select_dtypes df Number = metric_col # others"
    and "getitem df metric_col = Some series"
    and "2 \<le> length (dropna series)"
  shows "has_analysis (analyze_trend df intent question) \<and>
         visualization_type (analyze_trend df intent question) = ''line'' \<and>
         map_of (statistical_result (analyze_trend df intent question)) ''direction''
           = Some (PyStr (if mean (drop (length (dropna series) div 2) (dropna series))
                             > mean (take (length (dropna series) div 2) (dropna series))
                          then ''increasing'' else ''decreasing''))"
  using assms by (simp add: analyze_trend_def Let_def)

text \<open>
  C6. With an intent of type \<open>trend\<close> and a frame whose first numeric column holds
  the series, \<open>analyze\<close> splits the series (without its missing values) at its midpoint
  and returns the direction \<open>increasing\<close> exactly when the mean of the second half
  exceeds the mean of the first half, otherwise \<open>decreasing\<close>; for the values
  \<open>[1,2,3,4,5,6]\<close> it returns \<open>increasing\<close>, for \<open>[6,5,4,3,2,1]\<close>
  \<open>decreasing\<close>.
\<close>

theorem trend_direction:
  assumes "rows \<noteq> []" and "DataFrame rows = Inr df" and "itype intent = ''trend''"
    and "select_dtypes df Number = metric_col # others"
    and "getitem df metric_col = Some series"
  shows
    "(2 \<le> length (dropna series) \<longrightarrow>
        has_analysis (analyze corr analyze_comparison analyze_aggregate DataFrame rows intent question) \<and>
        map_of (statistical_result
                  (analyze corr analyze_comparison analyze_aggregate DataFrame rows intent question))
            ''direction''
          = Some (PyStr (if mean (drop (length (dropna series) div 2) (dropna series))
                            > mean (take (length (dropna series) div 2) (dropna series))
                         then ''increasing'' else ''decreasing''))) \<and>
     (series = map Num [1, 2, 3, 4, 5, 6] \<longrightarrow>
        map_of (statistical_result
                  (analyze corr analyze_comparison analyze_aggregate DataFrame rows intent question))
            ''direction''
          = Some (PyStr ''increasing'')) \<and>
     (series = map Num [6, 5, 4, 3, 2, 1] \<longrightarrow>
        map_of (statistical_result
                  (analyze corr analyze_comparison analyze_aggregate DataFrame rows intent question))
            ''direction''
          = Some (PyStr ''decreasing''))"
proof -
  have dispatch: "analyze corr analyze_comparison analyze_aggregate DataFrame rows intent question
                    = analyze_trend df intent question"
    using assms(1-3) by (simp add: analyze_def)
  have general: "2 \<le> length (dropna series) \<Longrightarrow>
      has_analysis (analyze_trend df intent question) \<and>
      map_of (statistical_result (analyze_trend df intent question)) ''direction''
        = Some (PyStr (if mean (drop (length (dropna series) div 2) (dropna series))
                          > mean (take (length (dropna series) div 2) (dropna series))
                       then ''increasing'' else ''decreasing''))"
    using analyze_trend_direction[OF assms(4,5), of intent question] by simp
  have up: "map_of (statistical_result (analyze_trend df intent question)) ''direction''
              = Some (PyStr ''increasing'')"
    if "series = map Num [1, 2, 3, 4, 5, 6]"
  proof -
    have v: "dropna series = [1, 2, 3, 4, 5, 6]" using that by (simp only: dropna_Num)
    show ?thesis using general by (simp add: v mean_def)
  qed
  have down: "map_of (statistical_result (analyze_trend df intent question)) ''direction''
                = Some (PyStr ''decreasing'')"
    if "series = map Num [6, 5, 4, 3, 2, 1]"
  proof -
    have v: "dropna series = [6, 5, 4, 3, 2, 1]" using that by (simp only: dropna_Num)
    show ?thesis using general by (simp add: v mean_def)
  qed
  show ?thesis using dispatch general up down by simp
qed

theorem trend_direction_witness:
  "revenue_rows [1, 2, 3, 4, 5, 6] \<noteq> [] \<and>
   itype trend_intent = ''trend'' \<and>
   select_dtypes (revenue_frame [1, 2, 3, 4, 5, 6]) Number = [''revenue''] \<and>
   getitem (revenue_frame [1, 2, 3, 4, 5, 6]) ''revenue'' = Some (map Num [1, 2, 3, 4, 5, 6]) \<and>
   map_of (statistical_result
             (analyze exact_pearson not_analysed not_analysed
                (\<lambda>rows. Inr (revenue_frame [1, 2, 3, 4, 5, 6]))
                (revenue_rows [1, 2, 3, 4, 5, 6]) trend_intent ''revenue trend''))
       ''direction''
     = Some (PyStr ''increasing'')"
proof -
  have a: "revenue_rows [1, 2, 3, 4, 5, 6] \<noteq> []" by (simp add: revenue_rows_def)
  have b: "(\<lambda>rows. Inr (revenue_frame [1, 2, 3, 4, 5, 6])) (revenue_rows [1, 2, 3, 4, 5, 6])
             = (Inr (revenue_frame [1, 2, 3, 4, 5, 6]) :: string + dataframe)" by simp
  have c: "itype trend_intent = ''trend''" by (simp add: trend_intent_def)
  have d: "select_dtypes (revenue_frame [1, 2, 3, 4, 5, 6]) Number = ''revenue'' # []"
    by (simp add: select_dtypes_def revenue_frame_def)
  have e: "getitem (revenue_frame [1, 2, 3, 4, 5, 6]) ''revenue'' = Some (map Num [1, 2, 3, 4, 5, 6])"
    by (simp add: getitem_def revenue_frame_def)
  show ?thesis
    using a c d e
      trend_direction[OF a b c d e, of exact_pearson not_analysed not_analysed "''revenue trend''"]
    by simp
qed

subsection \<open>Correlation\<close>












section \<open>Claims about SQL generation\<close>

lemma rstrip_append:
  assumes "a \<noteq> []" and "\<not> isspace (last a)"
  shows "rstrip (a @ b) = a @ rstrip b"
proof (cases "\<forall>x\<in>set (rev b). isspace x")
  case True
  then have "dropWhile isspace (rev b @ rev a) = dropWhile isspace (rev a)"
    by (intro dropWhile_append2) simp
  also have "\<dots> = rev a" using assms by (cases a rule: rev_cases) auto
  finally have "rstrip (a @ b) = a" by (simp add: rstrip_def)
  moreover have "rstrip b = []" using True by (simp add: rstrip_def)
  ultimately show ?thesis by simp
next
  case False
  then have "dropWhile isspace (rev b @ rev a) = dropWhile isspace (rev b) @ rev a"
    by (auto simp: dropWhile_append1)
  then show ?thesis by (simp add: rstrip_def)
qed

lemma match_limit_word:
  "match_here \<lparr>IGNORECASE = False, DOTALL = False\<rparr> (lit ''LIMIT'') prev (''LIMIT'' @ post) = Some 5"
  by (simp add: lit_def)

lemma match_spaces_then_limit:
  assumes "list_all isspace ws"
  shows "match_here \<lparr>IGNORECASE = False, DOTALL = False\<rparr> (ZeroOrMore Space # lit ''LIMIT'') prev
           (ws @ ''LIMIT'' @ post) \<noteq> None"
  using assms
proof (induction ws arbitrary: prev)
  case Nil
  have "\<not> isspace (CHR ''L'')" by (simp add: isspace_def whitespace_def)
  then show ?case using match_limit_word[of prev post] by simp
next
  case (Cons x xs)
  then have "match_here \<lparr>IGNORECASE = False, DOTALL = False\<rparr> (ZeroOrMore Space # lit ''LIMIT'')
               (Some x) (xs @ ''LIMIT'' @ post) \<noteq> None"
    by simp
  then show ?case using Cons.prems by auto
qed

lemma match_from_limit:
  assumes "ws \<noteq> []" and "list_all isspace ws"
  shows "match_alts \<lparr>IGNORECASE = False, DOTALL = False\<rparr> from_limit prev
           (''FROM'' @ ws @ ''LIMIT'' @ post) \<noteq> None"
proof -
  obtain x xs where ws: "ws = x # xs" using assms(1) by (cases ws) auto
  have "match_here \<lparr>IGNORECASE = False, DOTALL = False\<rparr> (ZeroOrMore Space # lit ''LIMIT'')
          (Some x) (xs @ ''LIMIT'' @ post) \<noteq> None"
    using assms(2) ws by (intro match_spaces_then_limit) simp
  then have "match_here \<lparr>IGNORECASE = False, DOTALL = False\<rparr> (OneOrMore Space # lit ''LIMIT'')
          (Some (CHR ''M'')) (ws @ ''LIMIT'' @ post) \<noteq> None"
    using assms(2) ws by auto
  then have "match_here \<lparr>IGNORECASE = False, DOTALL = False\<rparr>
          (lit ''FROM'' @ [OneOrMore Space] @ lit ''LIMIT'') prev
          (''FROM'' @ ws @ ''LIMIT'' @ post) \<noteq> None"
    by (simp add: lit_def)
  then show ?thesis by (auto simp: from_limit_def)
qed

lemma search_from_finds:
  assumes "\<And>prev'. match_alts f p prev' s \<noteq> None"
  shows "search_from f p prev (a @ s) i \<noteq> None"
proof (induction a arbitrary: prev i)
  case Nil
  show ?case using assms[of prev] by (cases s) auto
next
  case (Cons x xs)
  show ?case using Cons.IH[of "Some x" "Suc i"] by (auto split: option.splits)
qed

lemma re_search_from_limit:
  assumes "ws \<noteq> []" and "list_all isspace ws"
  shows "re_search from_limit (a @ ''FROM'' @ ws @ ''LIMIT'' @ post)
           \<lparr>IGNORECASE = False, DOTALL = False\<rparr> \<noteq> None"
  unfolding re_search_def using match_from_limit[OF assms] by (intro search_from_finds) simp

lemma str_find_Some: "str_in sub s \<Longrightarrow> \<exists>i. str_find s sub = Some i"
  by (auto simp: str_in_def)

lemma validate_sql_completeness_from_limit:
  assumes form: "upper sql = ''SELECT'' @ pre @ ''FROM'' @ ws @ ''LIMIT'' @ post"
    and ws: "ws \<noteq> []" "list_all isspace ws"
  shows "validate_sql_completeness sql
           \<in> {Some ''Query missing table name after FROM clause'',
              Some ''Query has LIMIT immediately after FROM - missing table name or JOIN clause''}"
proof -
  define u where "u = strip (upper sql)"
  have "\<not> isspace (CHR ''S'')" "\<not> isspace (CHR ''T'')" by (simp_all add: isspace_def whitespace_def)
  then have l: "lstrip (upper sql) = upper sql" unfolding form by (simp add: lstrip_def)
  have "upper sql = (''SELECT'' @ pre @ ''FROM'' @ ws @ ''LIMIT'') @ post" using form by simp
  moreover have "\<not> isspace (last (''SELECT'' @ pre @ ''FROM'' @ ws @ ''LIMIT''))"
    using \<open>\<not> isspace (CHR ''T'')\<close> by simp
  ultimately have "rstrip (upper sql) = (''SELECT'' @ pre @ ''FROM'' @ ws @ ''LIMIT'') @ rstrip post"
    using rstrip_append[of "''SELECT'' @ pre @ ''FROM'' @ ws @ ''LIMIT''" post] by simp
  then have u: "u = ''SELECT'' @ pre @ ''FROM'' @ ws @ ''LIMIT'' @ rstrip post"
    by (simp add: u_def strip_def l)
  have s: "startswith u ''SELECT''" unfolding u startswith_iff by simp
  have "u = (''SELECT'' @ pre) @ ''FROM'' @ (ws @ ''LIMIT'' @ rstrip post)" using u by simp
  then have f: "str_in ''FROM'' u" unfolding str_in_iff by blast
  then obtain i where i: "str_find u ''FROM'' = Some i" using str_find_Some by blast
  have "u = (''SELECT'' @ pre) @ ''FROM'' @ ws @ ''LIMIT'' @ rstrip post" using u by simp
  then have r: "re_search from_limit u \<lparr>IGNORECASE = False, DOTALL = False\<rparr> \<noteq> None"
    using re_search_from_limit[OF ws, of "''SELECT'' @ pre" "rstrip post"] by simp
  show ?thesis
    using s f i r by (auto simp: validate_sql_completeness_def Let_def u_def[symmetric])
qed


text \<open>
  C3. Let the language model answer with a text from which \<open>_extract_sql\<close> takes a
  candidate that, in upper case, starts with \<open>SELECT\<close> and in which \<open>FROM\<close> is
  followed by whitespace and then \<open>LIMIT\<close>, as in \<^verbatim>\<open>SELECT * FROM LIMIT 10\<close>.
  Then the completeness check returns one of its two messages about a missing table name,
  \<open>generate\<close> returns \<open>success = False\<close> with that message, and the SQL steps of
  \<open>handle_question\<close> end in a failed outcome without any call to the validator or the
  database.
\<close>

theorem from_limit_candidate_rejected:
  assumes "llm schema_context question_to_use = Inr content"
    and "extract_sql content = Some sql"
    and "upper sql = ''SELECT'' @ pre @ ''FROM'' @ ws @ ''LIMIT'' @ post"
    and "ws \<noteq> []" and "list_all isspace ws"
  shows
    "validate_sql_completeness sql
       \<in> {Some ''Query missing table name after FROM clause'',
          Some ''Query has LIMIT immediately after FROM - missing table name or JOIN clause''} \<and>
     (case validate_sql_completeness sql of
        Some reason \<Rightarrow> str_in ''missing table name'' reason
      | None \<Rightarrow> False) \<and>
     generate llm question_to_use schema_context
       = (False, None,
          map_option (\<lambda>reason. ''Generated SQL is incomplete: '' @ reason)
            (validate_sql_completeness sql)) \<and>
     sql_steps cfg llm parse db professional question question_to_use schema_context
       = (Failed \<lparr>success = False, answer = Some (professional question ''sql_generation''),
                  sql_query = None, data = None,
                  error = Some (professional question ''sql_generation'')\<rparr>, [])"
proof -
  have v: "validate_sql_completeness sql
             \<in> {Some ''Query missing table name after FROM clause'',
                Some ''Query has LIMIT immediately after FROM - missing table name or JOIN clause''}"
    using assms(3-5) by (rule validate_sql_completeness_from_limit)
  have m1: "str_in ''missing table name'' ''Query missing table name after FROM clause''"
    by code_simp
  have m2: "str_in ''missing table name''
              ''Query has LIMIT immediately after FROM - missing table name or JOIN clause''"
    by code_simp
  have w: "case validate_sql_completeness sql of
             Some reason \<Rightarrow> str_in ''missing table name'' reason
           | None \<Rightarrow> False"
    using v m1 m2 by auto
  have ne: "sql \<noteq> []" using assms(3) by (auto simp: upper_def)
  have g: "generate llm question_to_use schema_context
             = (False, None,
                map_option (\<lambda>reason. ''Generated SQL is incomplete: '' @ reason)
                  (validate_sql_completeness sql))"
    using assms(1,2) ne v by (auto simp: generate_def)
  have "sql_steps cfg llm parse db professional question question_to_use schema_context
          = (Failed \<lparr>success = False, answer = Some (professional question ''sql_generation''),
                     sql_query = None, data = None,
                     error = Some (professional question ''sql_generation'')\<rparr>, [])"
    by (simp add: sql_steps_def g)
  with v w g show ?thesis by simp
qed

theorem from_limit_candidate_rejected_witness:
  "extract_sql ''Here is the query: SELECT *  FROM LIMIT 10'' = Some ''SELECT * FROM LIMIT 10'' \<and>
   upper ''SELECT * FROM LIMIT 10'' = ''SELECT'' @ '' * '' @ ''FROM'' @ '' '' @ ''LIMIT'' @ '' 10'' \<and>
   list_all isspace '' '' \<and>
   generate llm_without_table ''list the films'' ''film(film_id, title)''
     = (False, None,
        Some ''Generated SQL is incomplete: Query missing table name after FROM clause'') \<and>
   sql_steps default_settings llm_without_table
       (\<lambda>sql. Inr []) (\<lambda>sql. Inr []) (\<lambda>question error_type. error_type)
       ''list the films'' ''list the films'' ''film(film_id, title)''
     = (Failed \<lparr>success = False, answer = Some ''sql_generation'', sql_query = None,
                data = None, error = Some ''sql_generation''\<rparr>, [])"
proof -
  have a: "llm_without_table ''film(film_id, title)'' ''list the films''
             = Inr ''Here is the query: SELECT *  FROM LIMIT 10''"
    by (simp add: llm_without_table_def)
  have b: "extract_sql ''Here is the query: SELECT *  FROM LIMIT 10'' = Some ''SELECT * FROM LIMIT 10''"
    by code_simp
  have c: "upper ''SELECT * FROM LIMIT 10''
             = ''SELECT'' @ '' * '' @ ''FROM'' @ '' '' @ ''LIMIT'' @ '' 10''" by code_simp
  have d: "'' '' \<noteq> []" by simp
  have e: "list_all isspace '' ''" by code_simp
  have f: "validate_sql_completeness ''SELECT * FROM LIMIT 10''
             = Some ''Query missing table name after FROM clause''" by code_simp
  show ?thesis
    using b c e f
      from_limit_candidate_rejected[where llm = llm_without_table
        and schema_context = "''film(film_id, title)''" and question_to_use = "''list the films''"
        and cfg = default_settings and parse = "\<lambda>sql. Inr []" and db = "\<lambda>sql. Inr []"
        and professional = "\<lambda>question error_type. error_type"
        and question = "''list the films''", OF a b c d e]
    by simp
qed

end
